theory Spec2Isabelle
  imports Main
begin

section \<open>Python values used by borg-archive\<close>

text \<open>
  Paths are absolute, normalised path strings (\<open>Path(p)\<close> and \<open>str(p)\<close> are then the
  identity, and \<open>resolve()\<close> changes nothing). A command is its argument vector.
\<close>

type_synonym path = string
type_synonym cmd = "string list"

text \<open>
  The exceptions of \<open>exceptions.py\<close> and the built-in ones the code can meet. A message
  is kept structured: \<open>Fmt p e\<close> is the f-string \<open>f"p{e}"\<close> that wraps a caught
  exception \<open>e\<close>.
\<close>

datatype exn =
    CollapseError message
  | CommandNotFoundError message
  | DuplicateTagException message
  | ArchiveError message
  | CreationError message
  | MountError message
  | ValidationError message
  | ExpandError message
  | RepoError message
  | ExtractError message
  | UpdateError message
  | ConfigurationError message
  | CalledProcessError int cmd "string option" "string option"
  | ValueError message
  | RuntimeError message
  | IndexError
  | KeyError
  | TypeError
  | AttributeError
  | OSError
and message = Text string | Fmt string exn

datatype json =
    JNull
  | JBool bool
  | JNum int
  | JStr string
  | JArr "json list"
  | JObj "(string \<times> json) list"

subsection \<open>\<open>str(int)\<close>\<close>

definition digit_char :: "nat \<Rightarrow> char" where
  "digit_char d = ''0123456789'' ! d"

function str_nat :: "nat \<Rightarrow> string" where
  "str_nat n = (if n < 10 then [digit_char n] else str_nat (n div 10) @ [digit_char (n mod 10)])"
  by pat_completeness auto
termination
  by (relation "measure id") auto

declare str_nat.simps [simp del]

definition str_int :: "int \<Rightarrow> string" where
  "str_int i = (if i < 0 then CHR ''-'' # str_nat (nat (- i)) else str_nat (nat i))"

subsection \<open>String helpers: \<open>startswith\<close>, \<open>in\<close>, \<open>split\<close>, \<open>splitlines\<close>\<close>

definition startswith :: "string \<Rightarrow> string \<Rightarrow> bool" where
  "startswith s p = (take (length p) s = p)"

fun contains :: "string \<Rightarrow> string \<Rightarrow> bool" where
  "contains [] k = (k = [])"
| "contains (c # cs) k = (take (length k) (c # cs) = k \<or> contains cs k)"

definition is_space :: "char \<Rightarrow> bool" where
  "is_space c = (c \<in> set [CHR '' '', CHR 0x09, CHR 0x0A, CHR 0x0B, CHR 0x0C, CHR 0x0D])"

fun split_aux :: "string \<Rightarrow> string \<Rightarrow> string list" where
  "split_aux acc [] = (if acc = [] then [] else [rev acc])"
| "split_aux acc (c # cs) =
     (if is_space c then (if acc = [] then split_aux [] cs else rev acc # split_aux [] cs)
      else split_aux (c # acc) cs)"

definition split :: "string \<Rightarrow> string list" where
  "split s = split_aux [] s"

text \<open>
  Text is held as its UTF-8 bytes. \<open>str.splitlines\<close> breaks a line at \<open>\n\<close>, \<open>\r\<close>,
  \<open>\r\n\<close>, \<open>\v\<close>, \<open>\f\<close>, the separators \<open>\x1c\<close>, \<open>\x1d\<close>, \<open>\x1e\<close>, and at the code
  points U+0085, U+2028 and U+2029, which are the byte sequences C2 85, E2 80 A8 and
  E2 80 A9.
\<close>

definition is_linebreak :: "char \<Rightarrow> bool" where
  "is_linebreak c = (c \<in> set [CHR 0x0A, CHR 0x0B, CHR 0x0C, CHR 0x0D, CHR 0x1C, CHR 0x1D, CHR 0x1E])"

definition linebreak_length :: "string \<Rightarrow> nat" where
  "linebreak_length t =
     (if take 2 t = [CHR 0x0D, CHR 0x0A] then 2
      else if take 1 t \<noteq> [] \<and> is_linebreak (hd t) then 1
      else if take 2 t = [CHR 0xC2, CHR 0x85] then 2
      else if take 3 t = [CHR 0xE2, CHR 0x80, CHR 0xA8] \<or> take 3 t = [CHR 0xE2, CHR 0x80, CHR 0xA9] then 3
      else 0)"

function splitlines_aux :: "string \<Rightarrow> string \<Rightarrow> string list" where
  "splitlines_aux acc [] = (if acc = [] then [] else [rev acc])"
| "splitlines_aux acc (c # cs) =
     (if linebreak_length (c # cs) = 0 then splitlines_aux (c # acc) cs
      else rev acc # splitlines_aux [] (drop (linebreak_length (c # cs)) (c # cs)))"
  by pat_completeness auto
termination
  by (relation "measure (\<lambda>(acc, t). length t)") auto

definition splitlines :: "string \<Rightarrow> string list" where
  "splitlines s = splitlines_aux [] s"

section \<open>The world outside the process\<close>

text \<open>
  The file system is an association list from paths to nodes; the first entry for a path
  is the one that counts. A regular file carries its bytes.
\<close>

datatype node = Dir | File string

type_synonym filesystem = "(path \<times> node) list"

definition path_join :: "path \<Rightarrow> string \<Rightarrow> path" where
  "path_join p c = (if p = ''/'' then p @ c else p @ ''/'' @ c)"

definition parent :: "path \<Rightarrow> path" where
  "parent p =
     (let q = rev (drop 1 (dropWhile (\<lambda>c. c \<noteq> CHR ''/'') (rev p)))
      in if q = [] then ''/'' else q)"

definition name :: "path \<Rightarrow> string" where
  "name p = rev (takeWhile (\<lambda>c. c \<noteq> CHR ''/'') (rev p))"

definition is_under :: "path \<Rightarrow> path \<Rightarrow> bool" where
  "is_under p q = (q = p \<or> take (Suc (length p)) q = p @ ''/'')"

fun ancestors_aux :: "string \<Rightarrow> string \<Rightarrow> path list" where
  "ancestors_aux acc [] = []"
| "ancestors_aux acc (c # cs) =
     (if c = CHR ''/'' \<and> acc \<noteq> [] then rev acc # ancestors_aux (c # acc) cs
      else ancestors_aux (c # acc) cs)"

definition ancestors :: "path \<Rightarrow> path list" where
  "ancestors p = ancestors_aux [] p"

definition exists :: "filesystem \<Rightarrow> path \<Rightarrow> bool" where
  "exists f p = (map_of f p \<noteq> None)"

definition is_dir :: "filesystem \<Rightarrow> path \<Rightarrow> bool" where
  "is_dir f p = (map_of f p = Some Dir)"

definition is_file :: "filesystem \<Rightarrow> path \<Rightarrow> bool" where
  "is_file f p = (case map_of f p of Some (File _) \<Rightarrow> True | _ \<Rightarrow> False)"

definition put :: "'k \<Rightarrow> 'v \<Rightarrow> ('k \<times> 'v) list \<Rightarrow> ('k \<times> 'v) list" where
  "put p n f = (p, n) # filter (\<lambda>(q, _). q \<noteq> p) f"

definition remove_tree :: "path \<Rightarrow> filesystem \<Rightarrow> filesystem" where
  "remove_tree p f = filter (\<lambda>(q, _). \<not> is_under p q) f"

text \<open>
  What a child process leaves behind: its exit status with what it wrote on stdout and
  stderr, or nothing when it could not be started.
\<close>

datatype launch = Exited int string string | NotStarted

text \<open>
  The environment the program runs in: \<open>which\<close> is \<open>shutil.which(c) is not None\<close>;
  \<open>spawn\<close> runs one command to completion in a working directory, with environment
  variables, over a file system; \<open>pipeline\<close> runs the stages of a pipe (with the bytes of
  the file given as stdin and the path of the file given as stdout) and tells how each
  stage ended; \<open>mkdtemp\<close> picks the name of the new scratch directory; \<open>json_loads\<close> is
  \<open>json.loads\<close>, \<open>None\<close> when it raises.
\<close>

record env =
  which :: "string \<Rightarrow> bool"
  spawn :: "cmd \<Rightarrow> path \<Rightarrow> (string \<times> string) list \<Rightarrow> filesystem \<Rightarrow> launch \<times> filesystem"
  pipeline :: "cmd list \<Rightarrow> string option \<Rightarrow> path option \<Rightarrow> path \<Rightarrow> (string \<times> string) list
                 \<Rightarrow> filesystem \<Rightarrow> (nat \<Rightarrow> launch) \<times> filesystem"
  mkdtemp :: "filesystem \<Rightarrow> path"
  json_loads :: "string \<Rightarrow> json option"

section \<open>The program state\<close>

text \<open>
  The attributes of a \<open>BorgArchive\<close> instance. \<open>borg_dir_is_temp\<close> is \<open>None\<close> until
  \<open>__enter__\<close>, \<open>create\<close> or \<open>update\<close> sets the attribute.
\<close>

record BorgArchive =
  archive_path :: "path option"
  borg_dir :: "path option"
  temp_dir :: "path option"
  is_mounted :: bool
  sqfs_is_mounted :: bool
  borg_dir_is_temp :: "bool option"

text \<open>
  The process state: the instance, the file system, the working directory, \<open>os.environ\<close>
  and the commands started so far, oldest first.
\<close>

record state =
  self :: BorgArchive
  fs :: filesystem
  cwd :: path
  environ :: "(string \<times> string) list"
  trace :: "cmd list"

type_synonym 'a io = "state \<Rightarrow> (exn + 'a) \<times> state"

definition io_return :: "'a \<Rightarrow> 'a io" where
  "io_return x s = (Inr x, s)"

definition io_raise :: "exn \<Rightarrow> 'a io" where
  "io_raise e s = (Inl e, s)"

definition io_bind :: "'a io \<Rightarrow> ('a \<Rightarrow> 'b io) \<Rightarrow> 'b io" where
  "io_bind m k s = (case m s of (Inl e, s') \<Rightarrow> (Inl e, s') | (Inr x, s') \<Rightarrow> k x s')"

definition io_then :: "unit io \<Rightarrow> 'b io \<Rightarrow> 'b io" where
  "io_then m k = io_bind m (\<lambda>_. k)"

definition try_except :: "'a io \<Rightarrow> (exn \<Rightarrow> 'a io) \<Rightarrow> 'a io" where
  "try_except m h s = (case m s of (Inl e, s') \<Rightarrow> h e s' | (Inr x, s') \<Rightarrow> (Inr x, s'))"

definition try_finally :: "'a io \<Rightarrow> unit io \<Rightarrow> 'a io" where
  "try_finally m fin s =
     (case m s of (r, s') \<Rightarrow>
        (case fin s' of (Inl e, s'') \<Rightarrow> (Inl e, s'') | (Inr _, s'') \<Rightarrow> (r, s'')))"

definition io_of :: "exn + 'a \<Rightarrow> 'a io" where
  "io_of r s = (r, s)"

definition modify :: "(state \<Rightarrow> state) \<Rightarrow> unit io" where
  "modify g s = (Inr (), g s)"

definition set_self :: "(BorgArchive \<Rightarrow> BorgArchive) \<Rightarrow> unit io" where
  "set_self g = modify (\<lambda>s. s\<lparr>self := g (self s)\<rparr>)"

definition the_path :: "path option \<Rightarrow> path io" where
  "the_path p = (case p of None \<Rightarrow> io_raise TypeError | Some q \<Rightarrow> io_return q)"

definition str_opt :: "path option \<Rightarrow> string" where
  "str_opt p = (case p of None \<Rightarrow> ''None'' | Some q \<Rightarrow> q)"

subsection \<open>File operations of the standard library\<close>

definition mkdir_parents :: "path \<Rightarrow> unit io" where
  "mkdir_parents p s =
     (if list_ex (is_file (fs s)) (ancestors p @ [p]) then (Inl OSError, s)
      else (Inr (), s\<lparr>fs := fold (\<lambda>q f. if is_dir f q then f else put q Dir f) (ancestors p @ [p]) (fs s)\<rparr>))"

definition open_rb :: "path \<Rightarrow> string io" where
  "open_rb p s = (case map_of (fs s) p of Some (File b) \<Rightarrow> (Inr b, s) | _ \<Rightarrow> (Inl OSError, s))"

definition open_wb :: "path \<Rightarrow> unit io" where
  "open_wb p s =
     (if is_dir (fs s) p \<or> \<not> is_dir (fs s) (parent p) then (Inl OSError, s)
      else (Inr (), s\<lparr>fs := put p (File []) (fs s)\<rparr>))"

definition write_text :: "path \<Rightarrow> string \<Rightarrow> unit io" where
  "write_text p t s =
     (if is_dir (fs s) p \<or> \<not> is_dir (fs s) (parent p) then (Inl OSError, s)
      else (Inr (), s\<lparr>fs := put p (File t) (fs s)\<rparr>))"

definition read_text :: "path \<Rightarrow> string io" where
  "read_text p = open_rb p"

definition unlink :: "path \<Rightarrow> unit io" where
  "unlink p s =
     (if is_file (fs s) p then (Inr (), s\<lparr>fs := filter (\<lambda>(q, _). q \<noteq> p) (fs s)\<rparr>)
      else (Inl OSError, s))"

definition rmtree :: "path \<Rightarrow> unit io" where
  "rmtree p s =
     (if is_dir (fs s) p then (Inr (), s\<lparr>fs := remove_tree p (fs s)\<rparr>) else (Inl OSError, s))"

definition chdir :: "path \<Rightarrow> unit io" where
  "chdir p s = (if is_dir (fs s) p then (Inr (), s\<lparr>cwd := p\<rparr>) else (Inl OSError, s))"

section \<open>utils.py\<close>

record completed =
  args :: cmd
  returncode :: int
  stdout :: "string option"
  stderr :: "string option"

text \<open>
  \<open>subprocess.run(cmd, check=..., capture_output=...)\<close>: a non-zero exit under
  \<open>check\<close> raises \<open>CalledProcessError\<close>; the streams are \<open>None\<close> unless captured.
\<close>

definition subprocess_run :: "env \<Rightarrow> cmd \<Rightarrow> bool \<Rightarrow> bool \<Rightarrow> completed io" where
  "subprocess_run E c check capture_output s =
     (case spawn E c (cwd s) (environ s) (fs s) of
        (NotStarted, f) \<Rightarrow> (Inl OSError, s\<lparr>fs := f, trace := trace s @ [c]\<rparr>)
      | (Exited rc out err, f) \<Rightarrow>
          (let s' = s\<lparr>fs := f, trace := trace s @ [c]\<rparr>;
               so = (if capture_output then Some out else None);
               se = (if capture_output then Some err else None)
           in if check \<and> rc \<noteq> 0 then (Inl (CalledProcessError rc c so se), s')
              else (Inr \<lparr>args = c, returncode = rc, stdout = so, stderr = se\<rparr>, s')))"

text \<open>
  An argument vector handed to \<open>run_command\<close> holds strings and, at some call sites,
  \<open>pathlib.Path\<close> objects; \<open>subprocess\<close> takes both.
\<close>

datatype arg = Str string | PathArg path

definition fspath :: "arg \<Rightarrow> string" where
  "fspath a = (case a of Str t \<Rightarrow> t | PathArg p \<Rightarrow> p)"

definition is_str :: "arg \<Rightarrow> bool" where
  "is_str a = (case a of Str _ \<Rightarrow> True | PathArg _ \<Rightarrow> False)"

text \<open>
  \<open>run_command\<close> passes its arguments on; \<open>suppress_stderr\<close> only redirects a stream
  that is not captured. Its handler for \<open>CalledProcessError\<close> prints \<open>' '.join(cmd)\<close>
  before it re-raises, and the join raises \<open>TypeError\<close> when \<open>cmd\<close> holds a \<open>Path\<close>.
\<close>

definition run_command :: "env \<Rightarrow> arg list \<Rightarrow> bool \<Rightarrow> bool \<Rightarrow> bool \<Rightarrow> completed io" where
  "run_command E c check capture_output suppress_stderr =
     try_except (subprocess_run E (map fspath c) check capture_output)
       (\<lambda>e. case e of
               CalledProcessError _ _ _ _ \<Rightarrow> if list_all is_str c then io_raise e else io_raise TypeError
             | _ \<Rightarrow> io_raise e)"

definition check_required_commands :: "env \<Rightarrow> unit io" where
  "check_required_commands E =
     (case filter (\<lambda>c. \<not> which E c) [''borg'', ''tar'', ''zstd''] of
        [] \<Rightarrow> io_return ()
      | c # _ \<Rightarrow> io_raise (CommandNotFoundError
                    (Text (''Required command '' @ [CHR 0x27] @ c @ [CHR 0x27] @ '' not found in PATH''))))"

definition get_best_compressor :: "env \<Rightarrow> string \<Rightarrow> exn + string \<times> string" where
  "get_best_compressor E archiver =
     (if archiver = ''tar'' then
        (if which E ''zstd'' then Inr (''zstd -9'', ''zstd -d'')
         else if which E ''pigz'' then Inr (''pigz -9'', ''pigz -d'')
         else if which E ''gzip'' then Inr (''gzip -9'', ''gzip -d'')
         else Inl (CommandNotFoundError
                (Text ''No supported compression command found (tried: zstd, pigz, gzip)'')))
      else if archiver = ''squashfs'' then
        (if which E ''zstd'' then Inr (''-comp zstd -Xcompression-level 9'', ''-comp zstd'')
         else if which E ''gzip'' then Inr (''-comp gzip -Xcompression-level 9'', ''-comp gzip'')
         else Inl (CommandNotFoundError
                (Text ''No supported compression command found (tried: zstd, gzip)'')))
      else Inl (RuntimeError (Text (''Bad archiver type in `for_archiver`: '' @ archiver @
                  '' (must be '' @ [CHR 0x27] @ ''tar'' @ [CHR 0x27] @ '' or '' @
                  [CHR 0x27] @ ''squashfs'' @ [CHR 0x27] @ '').''))))"

text \<open>
  \<open>get_best_archiver\<close> reads at most four bytes of an existing regular file. The local
  \<open>is_squashfs\<close> is a bool, so the test \<open>is_squashfs is not None\<close> always holds.
\<close>

definition get_best_archiver :: "env \<Rightarrow> filesystem \<Rightarrow> path option \<Rightarrow> string" where
  "get_best_archiver E f file_path =
     (let is_squashfs =
            (case file_path of
               None \<Rightarrow> False
             | Some p \<Rightarrow> (case map_of f p of Some (File b) \<Rightarrow> take 4 b = ''hsqs'' | _ \<Rightarrow> False));
          has_squashfs = which E ''mksquashfs'';
          is_squashfs = (case Some is_squashfs of Some b \<Rightarrow> b | None \<Rightarrow> has_squashfs)
      in if file_path \<noteq> None then (if is_squashfs then ''squashfs'' else ''tar'')
         else if has_squashfs then ''squashfs''
         else ''tar'')"

text \<open>
  \<open>run_pipeline\<close>. Stage \<open>i\<close> of \<open>n\<close> is started with \<open>stdout=PIPE\<close> unless it is the
  last of several, and with \<open>stderr=PIPE\<close> unless \<open>suppress_stderr\<close>; no stage has a
  pipe for stdin. Once the next stage is started, the parent closes its end of a stage's
  stdout pipe. \<open>proc\<close> is a started process: the state of the parent's two pipe ends,
  what the child writes on each stream and its exit status.
\<close>

datatype pipe = NoPipe | OpenPipe | ClosedPipe

record proc =
  p_cmd :: cmd
  p_stdout :: pipe
  p_stderr :: pipe
  p_out :: string
  p_err :: string
  p_returncode :: int

text \<open>
  \<open>Popen.communicate()\<close>. With at most one pipe it reads that pipe directly, and reading
  a closed one raises \<open>ValueError\<close>; with two pipes it polls the open ones and returns the
  empty string for a closed one. A stream that is no pipe gives \<open>None\<close>.
\<close>

definition communicate :: "bool \<Rightarrow> proc \<Rightarrow> exn + string option \<times> string option" where
  "communicate text_mode p =
     (if p_stdout p = NoPipe \<or> p_stderr p = NoPipe then
        (if p_stdout p \<noteq> NoPipe then
           (if p_stdout p = ClosedPipe then
              Inl (ValueError (Text (if text_mode then ''I/O operation on closed file.''
                                     else ''read of closed file'')))
            else Inr (Some (p_out p), None))
         else if p_stderr p \<noteq> NoPipe then Inr (None, Some (p_err p))
         else Inr (None, None))
      else Inr (Some (if p_stdout p = ClosedPipe then [] else p_out p), Some (p_err p)))"

definition falsy :: "string option \<Rightarrow> bool" where
  "falsy x = (case x of None \<Rightarrow> True | Some v \<Rightarrow> v = [])"

text \<open>\<open>collect\<close> is the loop over the processes: it keeps the output of the last one.\<close>

fun collect :: "bool \<Rightarrow> bool \<Rightarrow> nat \<Rightarrow> (nat \<times> proc) list \<Rightarrow> string option \<times> string option \<times> int list
                \<Rightarrow> exn + string option \<times> string option \<times> int list" where
  "collect text_mode suppress_stderr n [] acc = Inr acc"
| "collect text_mode suppress_stderr n ((i, p) # ps) (out, err, return_codes) =
     (case communicate text_mode p of
        Inl e \<Rightarrow> Inl e
      | Inr (so, se) \<Rightarrow>
          collect text_mode suppress_stderr n ps
            (if Suc i = n \<and> falsy out then so else out,
             if Suc i = n \<and> \<not> suppress_stderr then se else Some [],
             return_codes @ [p_returncode p]))"

definition index :: "int list \<Rightarrow> int \<Rightarrow> nat" where
  "index xs x = length (takeWhile (\<lambda>y. y \<noteq> x) xs)"

definition started :: "launch \<Rightarrow> bool" where
  "started l = (case l of NotStarted \<Rightarrow> False | Exited _ _ _ \<Rightarrow> True)"

definition popen :: "bool \<Rightarrow> nat \<Rightarrow> (nat \<Rightarrow> launch) \<Rightarrow> nat \<times> cmd \<Rightarrow> nat \<times> proc" where
  "popen suppress_stderr n r ic =
     (case r (fst ic) of
        Exited rc out err \<Rightarrow>
          (fst ic, \<lparr>p_cmd = snd ic,
                    p_stdout = (if n = 1 then OpenPipe else if Suc (fst ic) < n then ClosedPipe else NoPipe),
                    p_stderr = (if suppress_stderr then NoPipe else OpenPipe),
                    p_out = out, p_err = err, p_returncode = rc\<rparr>)
      | NotStarted \<Rightarrow>
          (fst ic, \<lparr>p_cmd = snd ic, p_stdout = NoPipe, p_stderr = NoPipe, p_out = [], p_err = [],
                    p_returncode = 0\<rparr>))"

definition run_pipeline :: "env \<Rightarrow> cmd list \<Rightarrow> bool \<Rightarrow> string option \<Rightarrow> path option \<Rightarrow> string option
                              \<Rightarrow> bool \<Rightarrow> completed io" where
  "run_pipeline E cmds check stdin stdout_file encoding suppress_stderr s =
     (if cmds = [] then (Inl (ValueError (Text ''Pipeline requires at least one command'')), s)
      else
        (case pipeline E cmds stdin stdout_file (cwd s) (environ s) (fs s) of
           (r, f) \<Rightarrow>
             (let n = length cmds;
                  s' = s\<lparr>fs := f, trace := trace s @ cmds\<rparr>
              in if \<not> list_all (\<lambda>i. started (r i)) [0..<n] then (Inl OSError, s')
                 else
                   (case collect (encoding \<noteq> None) suppress_stderr n
                           (map (popen suppress_stderr n r) (zip [0..<n] cmds)) (None, None, []) of
                      Inl e \<Rightarrow> (Inl e, s')
                    | Inr (out, err, return_codes) \<Rightarrow>
                        if check \<and> list_ex (\<lambda>code. code \<noteq> 0) return_codes then
                          (Inl (CalledProcessError (last return_codes)
                                  (cmds ! index return_codes (hd (filter (\<lambda>code. code \<noteq> 0) return_codes)))
                                  out err), s')
                        else (Inr \<lparr>args = last cmds, returncode = last return_codes,
                                   stdout = out, stderr = err\<rparr>, s')))))"

definition ensure_dir :: "path \<Rightarrow> unit io" where
  "ensure_dir p = mkdir_parents p"

section \<open>core.py\<close>

definition DEBUG :: bool where
  "DEBUG = False"

definition get :: "(state \<Rightarrow> 'a) \<Rightarrow> 'a io" where
  "get g s = (Inr (g s), s)"

definition quoted :: "string \<Rightarrow> string" where
  "quoted t = [CHR 0x22] @ t @ [CHR 0x22]"

definition BorgArchive_init :: "env \<Rightarrow> path option \<Rightarrow> path option \<Rightarrow> unit io" where
  "BorgArchive_init E archive_or_repo_path repo_path =
     io_bind (get fs) (\<lambda>f.
       let is_repo_dir =
             (case archive_or_repo_path of
                Some p \<Rightarrow> is_dir f p \<and> repo_path = None
              | None \<Rightarrow> False)
       in io_then
            (set_self (\<lambda>_.
               \<lparr>archive_path = (if is_repo_dir then None else archive_or_repo_path),
                borg_dir = (if is_repo_dir then archive_or_repo_path else repo_path),
                temp_dir = None, is_mounted = False, sqfs_is_mounted = False,
                borg_dir_is_temp = None\<rparr>))
            (check_required_commands E))"

definition borg_environ :: "(string \<times> string) list \<Rightarrow> (string \<times> string) list" where
  "borg_environ e =
     put ''BORG_UNKNOWN_UNENCRYPTED_REPO_ACCESS_IS_OK'' ''yes''
       (put ''BORG_RELOCATED_REPO_ACCESS_IS_OK'' ''yes'' e)"

definition set_borg_environ :: "unit io" where
  "set_borg_environ = modify (\<lambda>s. s\<lparr>environ := borg_environ (environ s)\<rparr>)"

definition dir_is_repo :: "env \<Rightarrow> path \<Rightarrow> bool io" where
  "dir_is_repo E repo_path =
     try_except
       (io_bind (subprocess_run E [''borg'', ''init'', repo_path, ''--encryption'', ''none''] True True)
          (\<lambda>_. io_return False))
       (\<lambda>e. case e of
               CalledProcessError rc c out err \<Rightarrow>
                 (if rc = 2 then
                    (case err of
                       None \<Rightarrow> io_raise AttributeError
                     | Some t \<Rightarrow> io_return (startswith t ''A repository already exists at''))
                  else io_return False)
             | _ \<Rightarrow> io_raise e)"

definition BorgArchive_enter :: "env \<Rightarrow> unit io" where
  "BorgArchive_enter E =
     io_bind
       (if \<not> DEBUG then
          io_bind (get fs) (\<lambda>f.
            io_then (modify (\<lambda>s. s\<lparr>fs := put (mkdtemp E f) Dir (fs s)\<rparr>)) (io_return (mkdtemp E f)))
        else io_bind (get cwd) (\<lambda>d. io_return (path_join d ''.borg'')))
       (\<lambda>t. io_then (set_self (\<lambda>b. b\<lparr>temp_dir := Some t\<rparr>))
         (io_then
            (io_bind (get (\<lambda>s. borg_dir (self s))) (\<lambda>bd.
               case bd of
                 Some d \<Rightarrow>
                   io_bind (dir_is_repo E d) (\<lambda>r.
                     if r then set_self (\<lambda>b. b\<lparr>borg_dir_is_temp := Some False\<rparr>)
                     else io_raise (RepoError (Text (''Invalid repository path supplied: '' @ quoted d))))
               | None \<Rightarrow>
                   set_self (\<lambda>b. b\<lparr>borg_dir := Some (path_join t ''borg-repo''),
                                    borg_dir_is_temp := Some True\<rparr>)))
            (io_bind (get (\<lambda>s. borg_dir (self s))) (\<lambda>bd. io_bind (the_path bd) ensure_dir))))"

definition create_compressed_archive :: "env \<Rightarrow> path option \<Rightarrow> unit io" where
  "create_compressed_archive E repo_dir_arg =
     io_bind (get (\<lambda>s. case repo_dir_arg of None \<Rightarrow> borg_dir (self s) | Some d \<Rightarrow> Some d)) (\<lambda>repo_dir.
     io_bind (get (\<lambda>s. get_best_archiver E (fs s) None)) (\<lambda>best_archiver.
       if best_archiver = ''tar'' then
         io_bind (io_of (get_best_compressor E ''tar'')) (\<lambda>compressor.
         io_bind (get cwd) (\<lambda>old_cwd.
         io_bind (case repo_dir of None \<Rightarrow> io_raise AttributeError | Some d \<Rightarrow> io_return d) (\<lambda>d.
         io_then (chdir (parent d))
           (try_finally
              (try_except
                 (io_bind (get (\<lambda>s. archive_path (self s))) (\<lambda>ap.
                  io_bind (the_path ap) (\<lambda>a.
                  io_then (open_wb a)
                    (io_bind
                       (run_pipeline E [[''tar'', ''--format=pax'', ''-cv'', name d], split (fst compressor)]
                          True None (Some a) None False)
                       (\<lambda>_. io_return ())))))
                 (\<lambda>e. io_raise (ArchiveError (Fmt ''Failed to create tar archive: '' e))))
              (chdir old_cwd)))))
       else if best_archiver = ''squashfs'' then
         io_bind (get cwd) (\<lambda>old_cwd.
         io_bind (case repo_dir of None \<Rightarrow> io_raise AttributeError | Some d \<Rightarrow> io_return d) (\<lambda>d.
         io_then (chdir (parent d))
           (try_finally
              (try_except
                 (io_bind (get (\<lambda>s. archive_path (self s))) (\<lambda>ap.
                  io_bind
                    (run_command E (map Str [''mksquashfs'', d, str_opt ap, ''-quiet'', ''-noappend'', ''-no-xattrs''])
                       True False False)
                    (\<lambda>_. io_return ())))
                 (\<lambda>e. io_raise (ArchiveError (Fmt ''Failed to create squashfs archive: '' e))))
              (chdir old_cwd))))
       else io_raise (ArchiveError (Text (''Internal error: Unknown '' @ [CHR 0x27] @ ''best archiver'' @
                        [CHR 0x27] @ '' found: '' @ best_archiver @ ''.'')))))"

definition extract_compressed_archive :: "env \<Rightarrow> path option \<Rightarrow> path option \<Rightarrow> unit io" where
  "extract_compressed_archive E archive_path_arg repo_dir_arg =
     io_bind (get (\<lambda>s. case archive_path_arg of None \<Rightarrow> archive_path (self s) | Some a \<Rightarrow> Some a)) (\<lambda>ap.
     io_bind (get (\<lambda>s. case repo_dir_arg of None \<Rightarrow> borg_dir (self s) | Some d \<Rightarrow> Some d)) (\<lambda>repo_dir.
     io_bind (get (\<lambda>s. get_best_archiver E (fs s) ap)) (\<lambda>best_archiver.
       if best_archiver = ''tar'' then
         io_bind (io_of (get_best_compressor E ''tar'')) (\<lambda>compressor.
           try_except
             (io_bind (the_path ap) (\<lambda>a.
              io_bind (open_rb a) (\<lambda>arch_in.
              io_bind
                (run_pipeline E
                   [split (snd compressor),
                    [''tar'', ''-xf'', ''-'', ''-C'', str_opt repo_dir, ''--strip-components=1'']]
                   True (Some arch_in) None None False)
                (\<lambda>_. io_return ()))))
             (\<lambda>e. io_raise (ExpandError (Fmt ''Failed to expand tar archive: '' e))))
       else if best_archiver = ''squashfs'' then
         try_except
           (io_bind
              (run_command E
                 (map Str [''unsquashfs'', ''-no-progress'', ''-quiet'', ''-dest'', str_opt repo_dir, str_opt ap])
                 True False False)
              (\<lambda>_. io_return ()))
           (\<lambda>e. io_raise (ExpandError (Fmt ''Failed to expand squashfs archive: '' e)))
       else io_return ())))"

definition remove_temp_dir :: "path option \<Rightarrow> unit io" where
  "remove_temp_dir tmp_dir_path =
     io_bind (get (\<lambda>s. case tmp_dir_path of None \<Rightarrow> temp_dir (self s) | Some p \<Rightarrow> Some p)) (\<lambda>t.
     io_bind (the_path t) (\<lambda>p.
     io_bind (get (\<lambda>s. exists (fs s) p)) (\<lambda>e. if e then rmtree p else io_return ())))"

text \<open>
  The look-ups \<open>__cleanup_borg_files\<close> makes in the parsed output of \<open>borg info --json\<close>:
  \<open>k in j\<close>, \<open>j[k]\<close> and \<open>Path(j)\<close>, each with the \<open>TypeError\<close> or \<open>KeyError\<close> Python
  raises on a value of the wrong shape.
\<close>

definition py_in :: "string \<Rightarrow> json \<Rightarrow> exn + bool" where
  "py_in k j =
     (case j of
        JObj kvs \<Rightarrow> Inr (map_of kvs k \<noteq> None)
      | JArr xs \<Rightarrow> Inr (List.member xs (JStr k))
      | JStr t \<Rightarrow> Inr (contains t k)
      | _ \<Rightarrow> Inl TypeError)"

definition py_getitem :: "json \<Rightarrow> string \<Rightarrow> exn + json" where
  "py_getitem j k =
     (case j of
        JObj kvs \<Rightarrow> (case map_of kvs k of Some v \<Rightarrow> Inr v | None \<Rightarrow> Inl KeyError)
      | _ \<Rightarrow> Inl TypeError)"

definition py_path :: "json \<Rightarrow> exn + path" where
  "py_path j = (case j of JStr t \<Rightarrow> Inr t | _ \<Rightarrow> Inl TypeError)"

definition rmtree_if_exists :: "path \<Rightarrow> unit io" where
  "rmtree_if_exists p =
     io_bind (get (\<lambda>s. exists (fs s) p)) (\<lambda>e. if e then rmtree p else io_return ())"

definition purge_info :: "json \<Rightarrow> unit io" where
  "purge_info info =
     io_then
       (io_bind (io_of (py_in ''cache'' info)) (\<lambda>has_cache.
          if has_cache then
            io_bind (io_of (py_getitem info ''cache'')) (\<lambda>cache.
            io_bind (io_of (py_in ''path'' cache)) (\<lambda>has_path.
              if has_path then
                io_bind (io_of (py_getitem cache ''path'')) (\<lambda>cp.
                io_bind (io_of (py_path cp)) rmtree_if_exists)
              else io_return ()))
          else io_return ()))
       (io_bind (io_of (py_in ''security_dir'' info)) (\<lambda>has_security.
          if has_security then
            io_bind (io_of (py_getitem info ''security_dir'')) (\<lambda>sd.
            io_bind (io_of (py_path sd)) rmtree_if_exists)
          else io_return ()))"

text \<open>
  \<open>__cleanup_borg_files\<close>: \<open>purge_info\<close> is its two clean-up steps on the parsed
  output; every exception is swallowed.
\<close>

definition cleanup_borg_files :: "env \<Rightarrow> path option \<Rightarrow> unit io" where
  "cleanup_borg_files E tmp_repo_path_arg =
     try_except
       (io_bind (get (\<lambda>s. case tmp_repo_path_arg of None \<Rightarrow> borg_dir (self s) | Some p \<Rightarrow> Some p)) (\<lambda>rp.
        io_then set_borg_environ
       (io_bind (the_path rp) (\<lambda>tmp_repo_path.
        io_bind (run_command E
                  (map Str [''borg'', ''info'', ''--error'', ''--json''] @
                   [case tmp_repo_path_arg of None \<Rightarrow> PathArg tmp_repo_path | Some _ \<Rightarrow> Str tmp_repo_path])
                  False True True) (\<lambda>result.
          if returncode result \<noteq> 0 then io_return ()
          else
            io_bind (case stdout result of None \<Rightarrow> io_raise TypeError
                     | Some t \<Rightarrow> (case json_loads E t of None \<Rightarrow> io_raise (ValueError (Text ''JSONDecodeError''))
                                   | Some j \<Rightarrow> io_return j))
              purge_info)))))
       (\<lambda>e. io_return ())"

definition delete_borg_repo :: "env \<Rightarrow> unit io" where
  "delete_borg_repo E =
     io_then (cleanup_borg_files E None)
       (try_except
          (io_then set_borg_environ
             (io_bind (get (\<lambda>s. borg_dir (self s))) (\<lambda>bd.
              io_bind (the_path bd) (\<lambda>d.
              io_bind (run_command E (map Str [''borg'', ''delete'', ''--error'', ''--force''] @ [PathArg d]) False False True)
                (\<lambda>_. io_return ())))))
          (\<lambda>e. io_return ()))"

definition unmount_squashfs :: "env \<Rightarrow> path \<Rightarrow> unit io" where
  "unmount_squashfs E mounted_squashfs =
     try_except
       (io_bind (run_command E (map Str [''umount'', ''-t'', ''squashfs'', mounted_squashfs]) False False True)
          (\<lambda>_. io_return ()))
       (\<lambda>e. io_return ())"

definition BorgArchive_exit :: "env \<Rightarrow> unit io" where
  "BorgArchive_exit E =
     io_bind (get (\<lambda>s. is_mounted (self s))) (\<lambda>mounted.
       if \<not> mounted \<and> \<not> DEBUG then
         io_then
           (io_bind (get (\<lambda>s. sqfs_is_mounted (self s))) (\<lambda>sqfs.
              if sqfs then
                try_except
                  (io_bind (get (\<lambda>s. borg_dir (self s))) (\<lambda>bd.
                   io_bind (the_path bd) (\<lambda>d.
                   io_bind (run_command E [Str ''umount'', PathArg d] True False False) (\<lambda>_. io_return ()))))
                  (\<lambda>e. io_return ())
              else io_return ()))
        (io_then
           (io_bind (get (\<lambda>s. borg_dir_is_temp (self s))) (\<lambda>is_temp.
              case is_temp of
                None \<Rightarrow> io_raise AttributeError
              | Some t \<Rightarrow> if t then delete_borg_repo E else io_return ()))
           (remove_temp_dir None))
       else io_return ())"

definition get_tag_list :: "env \<Rightarrow> bool \<Rightarrow> string list io" where
  "get_tag_list E full_output =
     io_then set_borg_environ
       (io_bind (get (\<lambda>s. borg_dir (self s))) (\<lambda>bd.
        io_bind
          (run_command E
             (map Str [''borg'', ''list'', ''--error'', ''--format'',
              (if full_output then ''{archive:<36} {time}{NL}'' else ''{archive}{NL}''),
              str_opt bd])
             True True True)
          (\<lambda>proc1. case stdout proc1 of
                      None \<Rightarrow> io_raise AttributeError
                    | Some t \<Rightarrow> io_return (splitlines t))))"

definition get_most_recent_tag :: "env \<Rightarrow> string io" where
  "get_most_recent_tag E =
     io_bind (get_tag_list E False) (\<lambda>tags.
       if tags = [] then io_raise IndexError else io_return (last tags))"

subsection \<open>The tag counter\<close>

text \<open>
  \<open>str\<close> is injective on the integers, so the loop of \<open>generate_next_tag\<close>, which
  walks upwards past the tags in use, leaves the finite tag set after finitely many steps.
\<close>

lemma digit_char_inj: "a < 10 \<Longrightarrow> b < 10 \<Longrightarrow> digit_char a = digit_char b \<Longrightarrow> a = b"
proof -
  assume a: "a < 10" and b: "b < 10" and e: "digit_char a = digit_char b"
  have d: "distinct ''0123456789''" by simp
  have l: "length ''0123456789'' = 10" by simp
  from a b l have "a < length ''0123456789''" "b < length ''0123456789''" by simp_all
  with d e show "a = b"
    unfolding digit_char_def by (simp only: nth_eq_iff_index_eq)
qed

lemma digit_char_not_minus: "d < 10 \<Longrightarrow> digit_char d \<noteq> CHR ''-''"
proof -
  assume "d < 10"
  then have "d \<in> {0, 1, 2, 3, 4, 5, 6, 7, 8, 9}" by auto
  then show ?thesis by (auto simp: digit_char_def)
qed

lemma str_nat_nonempty: "str_nat n \<noteq> []"
  by (subst str_nat.simps) simp

lemma str_nat_inj: "str_nat n = str_nat m \<Longrightarrow> n = m"
proof (induction n arbitrary: m rule: str_nat.induct)
  case (1 n)
  show ?case
  proof (cases "n < 10")
    case True
    show ?thesis
    proof (cases "m < 10")
      case mt: True
      from "1.prems" True mt show ?thesis
        by (simp add: str_nat.simps [of n] str_nat.simps [of m] digit_char_inj)
    next
      case mf: False
      from "1.prems" True mf show ?thesis
        using str_nat_nonempty [of "m div 10"]
        by (simp add: str_nat.simps [of n] str_nat.simps [of m] Cons_eq_append_conv)
    qed
  next
    case False
    show ?thesis
    proof (cases "m < 10")
      case mt: True
      from "1.prems" False mt show ?thesis
        using str_nat_nonempty [of "n div 10"]
        by (simp add: str_nat.simps [of n] str_nat.simps [of m] append_eq_Cons_conv)
    next
      case mf: False
      from "1.prems" False mf
      have e: "str_nat (n div 10) = str_nat (m div 10)" and d: "digit_char (n mod 10) = digit_char (m mod 10)"
        by (simp_all add: str_nat.simps [of n] str_nat.simps [of m])
      from "1.IH" [OF False e] have q: "n div 10 = m div 10" .
      from d have r: "n mod 10 = m mod 10" by (intro digit_char_inj) simp_all
      from q r show ?thesis by (metis div_mult_mod_eq)
    qed
  qed
qed

lemma str_nat_hd: "hd (str_nat n) \<noteq> CHR ''-''"
proof (induction n rule: str_nat.induct)
  case (1 n)
  show ?case
  proof (cases "n < 10")
    case True
    then show ?thesis by (simp add: str_nat.simps [of n] digit_char_not_minus)
  next
    case False
    with "1.IH" show ?thesis
      using str_nat_nonempty [of "n div 10"] by (simp add: str_nat.simps [of n])
  qed
qed

lemma str_int_inj: "inj str_int"
proof (rule injI)
  fix a b :: int
  assume e: "str_int a = str_int b"
  have neg: "\<And>x y. CHR ''-'' # str_nat x \<noteq> str_nat y"
    using str_nat_hd by (metis list.sel(1))
  show "a = b"
  proof (cases "a < 0")
    case True
    show ?thesis
    proof (cases "b < 0")
      case bt: True
      from e True bt have "nat (- a) = nat (- b)" by (auto simp: str_int_def dest: str_nat_inj)
      with True bt show ?thesis by simp
    next
      case bf: False
      from e True bf neg show ?thesis by (simp add: str_int_def)
    qed
  next
    case False
    show ?thesis
    proof (cases "b < 0")
      case bt: True
      from e False bt neg [of "nat (- b)" "nat a"] show ?thesis by (simp add: str_int_def)
    next
      case bf: False
      from e False bf have "nat a = nat b" by (auto simp: str_int_def dest: str_nat_inj)
      with False bf show ?thesis by simp
    qed
  qed
qed

function skip_used :: "string list \<Rightarrow> int \<Rightarrow> int" where
  "skip_used tags next_tag =
     (if str_int next_tag \<in> set tags then skip_used tags (next_tag + 1) else next_tag)"
  by pat_completeness auto
termination
proof (relation "measure (\<lambda>(tags, n). card {m. n \<le> m \<and> str_int m \<in> set tags})")
  show "wf (measure (\<lambda>(tags, n). card {m. n \<le> m \<and> str_int m \<in> set tags}))" by simp
next
  fix tags :: "string list" and next_tag :: int
  assume used: "str_int next_tag \<in> set tags"
  have fin: "finite {m. next_tag \<le> m \<and> str_int m \<in> set tags}"
  proof (rule finite_subset)
    show "{m. next_tag \<le> m \<and> str_int m \<in> set tags} \<subseteq> str_int -` set tags" by auto
    show "finite (str_int -` set tags)" by (rule finite_vimageI [OF _ str_int_inj]) simp
  qed
  have "next_tag \<in> {m. next_tag \<le> m \<and> str_int m \<in> set tags}"
    using used by simp
  moreover have "next_tag \<notin> {m. next_tag + 1 \<le> m \<and> str_int m \<in> set tags}"
    by simp
  moreover have "{m. next_tag + 1 \<le> m \<and> str_int m \<in> set tags} \<subseteq> {m. next_tag \<le> m \<and> str_int m \<in> set tags}"
    by auto
  ultimately have "{m. next_tag + 1 \<le> m \<and> str_int m \<in> set tags} \<subset> {m. next_tag \<le> m \<and> str_int m \<in> set tags}"
    by blast
  then have "card {m. next_tag + 1 \<le> m \<and> str_int m \<in> set tags} < card {m. next_tag \<le> m \<and> str_int m \<in> set tags}"
    by (rule psubset_card_mono [OF fin])
  then show "((tags, next_tag + 1), (tags, next_tag)) \<in> measure (\<lambda>(tags, n). card {m. n \<le> m \<and> str_int m \<in> set tags})"
    by simp
qed

declare skip_used.simps [simp del]

lemma skip_used_free: "str_int (skip_used tags n) \<notin> set tags"
  by (induction tags n rule: skip_used.induct) (subst skip_used.simps, simp)

lemma skip_used_ge: "n \<le> skip_used tags n"
proof (induction tags n rule: skip_used.induct)
  case (1 tags n)
  show ?case
  proof (cases "str_int n \<in> set tags")
    case True
    from "1.IH" [OF True] have "n \<le> skip_used tags (n + 1)" by simp
    with True show ?thesis by (subst skip_used.simps) simp
  next
    case False
    then show ?thesis by (subst skip_used.simps) simp
  qed
qed

lemma skip_used_least: "n \<le> m \<Longrightarrow> str_int m \<notin> set tags \<Longrightarrow> skip_used tags n \<le> m"
proof (induction tags n rule: skip_used.induct)
  case (1 tags n)
  show ?case
  proof (cases "str_int n \<in> set tags")
    case True
    with "1.prems" have "n \<noteq> m" by auto
    with "1.prems" have "n + 1 \<le> m" by simp
    from "1.IH" [OF True this "1.prems"(2)] True show ?thesis
      by (subst skip_used.simps) simp
  next
    case False
    with "1.prems" show ?thesis by (subst skip_used.simps) simp
  qed
qed


definition generate_next_tag :: "env \<Rightarrow> string option \<Rightarrow> string io" where
  "generate_next_tag E tag =
     io_bind (get_tag_list E False) (\<lambda>tag_list.
       case tag of
         Some t \<Rightarrow>
           if t \<in> set tag_list then
             io_raise (DuplicateTagException (Text (''Tag '' @ quoted t @ '' already exists.'')))
           else io_return t
       | None \<Rightarrow> io_return (str_int (skip_used tag_list (int (card (set tag_list)) + 1))))"

subsection \<open>mount, unmount, update\<close>

definition mount :: "env \<Rightarrow> path \<Rightarrow> string option \<Rightarrow> unit io" where
  "mount E mount_dir tag =
     io_then (ensure_dir mount_dir)
    (io_then
       (io_bind (get (\<lambda>s. borg_dir_is_temp (self s))) (\<lambda>is_temp.
          case is_temp of
            None \<Rightarrow> io_raise AttributeError
          | Some t \<Rightarrow>
              if t then
                io_then
                  (io_bind (get (\<lambda>s. borg_dir (self s))) (\<lambda>bd.
                     write_text (path_join mount_dir ''.borg-repo'') (str_opt bd)))
                  (try_except (extract_compressed_archive E None None)
                     (\<lambda>e. io_raise (MountError (Fmt ''Failed to prepare archive: '' e))))
              else io_return ()))
    (io_then
       (try_except
          (io_bind
             (case tag of
                None \<Rightarrow> get_most_recent_tag E
              | Some t \<Rightarrow> if t = [] then get_most_recent_tag E else io_return t) (\<lambda>tg.
           io_then set_borg_environ
          (io_bind (get (\<lambda>s. borg_dir (self s))) (\<lambda>bd.
           io_bind
             (run_command E (map Str [''borg'', ''mount'', ''--error'', str_opt bd @ ''::'' @ tg, mount_dir])
                True False False)
             (\<lambda>_. io_return ())))))
          (\<lambda>e. io_raise (MountError (Fmt ''Failed to mount archive: '' e))))
       (set_self (\<lambda>b. b\<lparr>is_mounted := True\<rparr>))))"

definition unmount :: "env \<Rightarrow> path \<Rightarrow> unit io" where
  "unmount E mount_dir =
     io_bind (get (\<lambda>s. exists (fs s) mount_dir)) (\<lambda>there.
       if \<not> there then
         io_raise (MountError (Text (''Mount directory '' @ [CHR 0x27] @ mount_dir @ [CHR 0x27] @
                     '' does not exist'')))
       else
         try_except
           (io_then
              (io_bind (run_command E (map Str [''borg'', ''umount'', ''--error'', mount_dir]) True False False)
                 (\<lambda>_. io_return ()))
              (io_bind (get (\<lambda>s. exists (fs s) (path_join mount_dir ''.borg-repo''))) (\<lambda>sidecar.
                 if sidecar then
                   io_bind (read_text (path_join mount_dir ''.borg-repo'')) (\<lambda>mounted_repo.
                   io_then (unmount_squashfs E mounted_repo)
                  (io_then (cleanup_borg_files E (Some mounted_repo))
                  (io_then (remove_temp_dir (Some mounted_repo))
                     (unlink (path_join mount_dir ''.borg-repo'')))))
                 else io_return ())))
           (\<lambda>e. io_raise (MountError (Fmt ''Failed to unmount archive: '' e))))"

definition update :: "env \<Rightarrow> path \<Rightarrow> string option \<Rightarrow> unit io" where
  "update E source_dir_or_repo tag =
     io_bind (get (\<lambda>s. is_dir (fs s) source_dir_or_repo)) (\<lambda>source_is_dir.
       if \<not> source_is_dir then
         io_raise (ValidationError (Text (''Source directory '' @ [CHR 0x27] @ source_dir_or_repo @
                     [CHR 0x27] @ '' does not exist'')))
       else
         io_bind (dir_is_repo E source_dir_or_repo) (\<lambda>updating_archive_from_repo.
         io_then
           (if updating_archive_from_repo then
              set_self (\<lambda>b. b\<lparr>borg_dir := Some source_dir_or_repo, borg_dir_is_temp := Some False\<rparr>)
            else io_return ())
        (io_bind (get (\<lambda>s. archive_path (self s) \<noteq> None)) (\<lambda>updating_archive.
         io_then
           (io_bind (get (\<lambda>s. borg_dir_is_temp (self s))) (\<lambda>is_temp.
              case is_temp of
                None \<Rightarrow> io_raise AttributeError
              | Some t \<Rightarrow>
                  if t then
                    try_except (extract_compressed_archive E None None)
                      (\<lambda>e. io_raise (UpdateError (Fmt ''Failed to prepare archive: '' e)))
                  else io_return ()))
           (try_except
              (io_then
                 (if \<not> updating_archive_from_repo then
                    io_bind (get (\<lambda>s. borg_dir (self s))) (\<lambda>bd.
                    io_bind (the_path bd) (\<lambda>d.
                    io_bind (get (\<lambda>s. is_file (fs s) (path_join d ''lock.roster''))) (\<lambda>locked.
                      if locked then
                        io_raise (UpdateError (Text ([CHR 0x0A] @
                          ''Cannot update expanded repository '' @ quoted (name d) @ ''. '' @
                          ''The repository is locked, possibly due to being mounted.'' @ [CHR 0x0A] @
                          ''If you have mounted an archive, use `borg-archive unmount` '' @
                          ''to unmount it, then try updating again.'')))
                      else
                        io_bind (get cwd) (\<lambda>old_cwd.
                        io_then (chdir (parent source_dir_or_repo))
                          (try_finally
                             (io_bind (generate_next_tag E tag) (\<lambda>tg.
                              io_then set_borg_environ
                                (io_bind
                                   (run_command E
                                      (map Str [''borg'', ''create'', ''--compression'', ''zstd,9'', ''--error'',
                                       ''--progress'', d @ ''::'' @ tg, name source_dir_or_repo])
                                      True False True)
                                   (\<lambda>_. io_return ()))))
                             (chdir old_cwd))))))
                  else io_return ())
                 (if updating_archive then create_compressed_archive E None else io_return ()))
              (\<lambda>e. io_raise (UpdateError (Fmt ''Failed to update archive: '' e))))))))"

section \<open>A small host to run the model on\<close>

text \<open>
  \<open>host\<close> is a machine with borg, tar and zstd installed. Its \<open>borg init\<close> refuses a
  directory that holds a repository (marked by the file \<open>config\<close>) with exit status 2 and
  the engine's message, and creates a repository anywhere else; its \<open>borg list\<close> prints the
  file \<open>tags\<close> of the repository; every other command, and every stage of a pipe, exits
  with status 0, prints nothing and changes nothing. It serves to evaluate the model on
  concrete inputs.
\<close>

definition host_spawn :: "cmd \<Rightarrow> path \<Rightarrow> (string \<times> string) list \<Rightarrow> filesystem \<Rightarrow> launch \<times> filesystem" where
  "host_spawn c d e f =
     (if take 2 c = [''borg'', ''init''] then
        (if is_file f (path_join (c ! 2) ''config'') then
           (Exited 2 [] (''A repository already exists at '' @ c ! 2 @ ''.''), f)
         else (Exited 0 [] [], put (path_join (c ! 2) ''config'') (File []) (put (c ! 2) Dir f)))
      else if take 2 c = [''borg'', ''list''] then
        (case map_of f (path_join (last c) ''tags'') of
           Some (File t) \<Rightarrow> (Exited 0 t [], f)
         | _ \<Rightarrow> (Exited 2 [] ''Repository does not exist.'', f))
      else (Exited 0 [] [], f))"

definition host :: env where
  "host =
     \<lparr>which = (\<lambda>c. c \<in> set [''borg'', ''tar'', ''zstd'']),
      spawn = host_spawn,
      pipeline = (\<lambda>cmds stdin stdout_file d e f. (\<lambda>i. Exited 0 [] [], f)),
      mkdtemp = (\<lambda>f. if exists f ''/tmp/tmp0'' then ''/tmp/tmp1'' else ''/tmp/tmp0''),
      json_loads = (\<lambda>t. None)\<rparr>"

definition fresh_instance :: BorgArchive where
  "fresh_instance =
     \<lparr>archive_path = None, borg_dir = None, temp_dir = None, is_mounted = False,
      sqfs_is_mounted = False, borg_dir_is_temp = None\<rparr>"

definition boot :: "filesystem \<Rightarrow> state" where
  "boot f = \<lparr>self = fresh_instance, fs = f, cwd = ''/home'', environ = [], trace = []\<rparr>"

definition repo_state :: state where
  "repo_state =
     (boot [(''/home'', Dir), (''/repo'', Dir), (''/repo/config'', File []),
            (''/repo/tags'', File (''1'' @ [CHR 0x0A] @ ''3'' @ [CHR 0x0A] @ ''4'' @ [CHR 0x0A]))])
       \<lparr>self := fresh_instance\<lparr>borg_dir := Some ''/repo'', borg_dir_is_temp := Some False\<rparr>\<rparr>"

definition noisy_host :: env where
  "noisy_host =
     host\<lparr>spawn := (\<lambda>c d e f. (Exited 2 [] ''Error: A repository already exists at /repo.'', f))\<rparr>"

definition squashfs_host :: env where
  "squashfs_host = host\<lparr>which := (\<lambda>c. c \<in> set [''borg'', ''tar'', ''mksquashfs'', ''unsquashfs''])\<rparr>"

definition failing_tar_host :: env where
  "failing_tar_host =
     host\<lparr>pipeline := (\<lambda>cmds stdin stdout_file d e f.
       (\<lambda>i. if i = 0 then Exited 2 [] ''tar: error'' else Exited 0 [] [], f))\<rparr>"

definition archive_fs :: filesystem where
  "archive_fs = [(''/home'', Dir), (''/home/a.baz'', File ''(zstd-compressed tar)''),
                 (''/tmp'', Dir), (''/mnt'', Dir)]"

definition entered_state :: state where
  "entered_state =
     snd (BorgArchive_enter host (snd (BorgArchive_init host (Some ''/home/a.baz'') None (boot archive_fs))))"

definition mounted_state :: state where
  "mounted_state = snd (mount host ''/mnt/x'' (Some ''1'') entered_state)"

definition squashfs_state :: state where
  "squashfs_state = entered_state\<lparr>self := (self entered_state)\<lparr>sqfs_is_mounted := True\<rparr>\<rparr>"

definition unmount_entered :: state where
  "unmount_entered =
     snd (BorgArchive_enter host (snd (BorgArchive_init host None None
       ((snd (BorgArchive_exit host mounted_state))\<lparr>self := fresh_instance, environ := [], trace := []\<rparr>))))"

definition unmounted_state :: state where
  "unmounted_state = snd (BorgArchive_exit host (snd (unmount host ''/mnt/x'' unmount_entered)))"

definition repo_fs :: filesystem where
  "repo_fs = [(''/home'', Dir), (''/home/data'', Dir), (''/tmp'', Dir), (''/repo'', Dir),
              (''/repo/config'', File []),
              (''/repo/tags'', File (''1'' @ [CHR 0x0A] @ ''3'' @ [CHR 0x0A] @ ''4'' @ [CHR 0x0A]))]"

definition repo_entered :: state where
  "repo_entered =
     snd (BorgArchive_enter host (snd (BorgArchive_init host (Some ''/repo'') None (boot repo_fs))))"

definition readonly_host :: env where
  "readonly_host =
     host\<lparr>spawn := (\<lambda>c d e f. if take 2 c = [''borg'', ''init''] then (Exited 2 [] ''Permission denied: /data'', f)
                               else host_spawn c d e f)\<rparr>"

text \<open>
  \<open>purging_host\<close> is \<open>host\<close> with a \<open>borg info\<close> that reports a cache path and a
  security directory; \<open>purge_state\<close> has both on disk, and a file in the temporary
  repository.
\<close>

definition info_json :: json where
  "info_json =
     JObj [(''cache'', JObj [(''path'', JStr ''/home/.cache/borg/r1'')]),
           (''security_dir'', JStr ''/home/.config/borg/security/r1'')]"

definition purging_host :: env where
  "purging_host =
     host\<lparr>spawn := (\<lambda>c d e f. if take 2 c = [''borg'', ''info''] then (Exited 0 ''(output of borg info)'' [], f)
                               else host_spawn c d e f),
          json_loads := (\<lambda>t. if t = ''(output of borg info)'' then Some info_json else None)\<rparr>"

definition purge_state :: state where
  "purge_state =
     squashfs_state\<lparr>fs := [(''/home/.cache/borg/r1'', Dir), (''/home/.cache/borg/r1/chunks'', File ''c''),
                           (''/home/.config/borg/security/r1'', Dir),
                           (''/home/.config/borg/security/r1/nonce'', File ''n''),
                           (''/tmp/tmp0/borg-repo/data'', File ''d'')] @ fs squashfs_state\<rparr>"


text \<open>
  \<open>keeps m\<close>: the action \<open>m\<close> changes neither the instance, nor the list of commands
  started, nor the working directory, nor the environment variables.
\<close>

definition keeps :: "'a io \<Rightarrow> bool" where
  "keeps m = (\<forall>s. self (snd (m s)) = self s \<and> trace (snd (m s)) = trace s
                 \<and> cwd (snd (m s)) = cwd s \<and> environ (snd (m s)) = environ s)"

section \<open>The tag registry\<close>

lemma repo_state_tags: "fst (get_tag_list host False repo_state) = Inr [''1'', ''3'', ''4'']"
  by code_simp

text \<open>
  C1. Whenever the listing of the repository succeeds with the tags \<open>tags\<close>,
  \<open>generate_next_tag(None)\<close> returns the decimal string of an integer \<open>n\<close> that is not
  a tag, with \<open>n\<close> at least the number of distinct tags plus one (so positive), and no
  integer from that bound up to \<open>n\<close> has an unused decimal string: \<open>n\<close> is the smallest.
\<close>

theorem generate_next_tag_smallest_unused:
  assumes "get_tag_list E False s = (Inr tags, s')"
  shows "\<exists>n. generate_next_tag E None s = (Inr (str_int n), s')
           \<and> str_int n \<notin> set tags
           \<and> int (card (set tags)) + 1 \<le> n
           \<and> (\<forall>m. int (card (set tags)) + 1 \<le> m \<and> str_int m \<notin> set tags \<longrightarrow> n \<le> m)"
proof (intro exI conjI allI impI)
  show "generate_next_tag E None s = (Inr (str_int (skip_used tags (int (card (set tags)) + 1))), s')"
    using assms by (simp add: generate_next_tag_def io_bind_def io_return_def)
  show "str_int (skip_used tags (int (card (set tags)) + 1)) \<notin> set tags"
    by (rule skip_used_free)
  show "int (card (set tags)) + 1 \<le> skip_used tags (int (card (set tags)) + 1)"
    by (rule skip_used_ge)
  fix m assume "int (card (set tags)) + 1 \<le> m \<and> str_int m \<notin> set tags"
  then show "skip_used tags (int (card (set tags)) + 1) \<le> m"
    by (simp add: skip_used_least)
qed

theorem generate_next_tag_smallest_unused_witness:
  "get_tag_list host False repo_state =
     (Inr [''1'', ''3'', ''4''], snd (get_tag_list host False repo_state))
   \<and> fst (generate_next_tag host None repo_state) = Inr ''5''
   \<and> (\<exists>n. generate_next_tag host None repo_state =
             (Inr (str_int n), snd (get_tag_list host False repo_state))
           \<and> str_int n \<notin> set [''1'', ''3'', ''4'']
           \<and> int (card (set [''1'', ''3'', ''4''])) + 1 \<le> n
           \<and> (\<forall>m. int (card (set [''1'', ''3'', ''4''])) + 1 \<le> m \<and> str_int m \<notin> set [''1'', ''3'', ''4'']
                  \<longrightarrow> n \<le> m))"
proof -
  have h: "get_tag_list host False repo_state =
             (Inr [''1'', ''3'', ''4''], snd (get_tag_list host False repo_state))"
    using repo_state_tags by (metis prod.collapse)
  have v: "fst (generate_next_tag host None repo_state) = Inr ''5''"
    by code_simp
  from h v generate_next_tag_smallest_unused [OF h] show ?thesis
    by blast
qed

section \<open>The repository-validity probe\<close>

text \<open>
  C3 fails as stated: the probe tests that stderr \<^emph>\<open>starts with\<close> the engine's message,
  not that the message occurs in it. On a host whose engine exits with status 2 and puts
  a word before the message, the message is a substring of stderr and the probe answers
  \<open>False\<close>.
\<close>

theorem dir_is_repo_substring_counterexample:
  "spawn noisy_host [''borg'', ''init'', ''/repo'', ''--encryption'', ''none''] ''/home'' [] [(''/repo'', Dir)]
     = (Exited 2 [] ''Error: A repository already exists at /repo.'', [(''/repo'', Dir)])
   \<and> contains ''Error: A repository already exists at /repo.'' ''A repository already exists at''
   \<and> fst (dir_is_repo noisy_host ''/repo'' (boot [(''/repo'', Dir)])) = Inr False"
  by code_simp

text \<open>
  C3, amended. For every path, \<open>dir_is_repo\<close> runs \<open>borg init p --encryption none\<close> once
  and returns \<open>True\<close> exactly when that process exits with status 2 and its stderr begins
  with "A repository already exists at"; it returns \<open>False\<close> for every other exit of the
  process (success, another status, another text), and raises when the process cannot be
  started. Whatever the attempt did to the file system stays.
\<close>

theorem dir_is_repo_outcome:
  "dir_is_repo E p s =
     (case spawn E [''borg'', ''init'', p, ''--encryption'', ''none''] (cwd s) (environ s) (fs s) of
        (Exited rc out err, f) \<Rightarrow>
          (Inr (rc = 2 \<and> startswith err ''A repository already exists at''),
           s\<lparr>fs := f, trace := trace s @ [[''borg'', ''init'', p, ''--encryption'', ''none'']]\<rparr>)
      | (NotStarted, f) \<Rightarrow>
          (Inl OSError,
           s\<lparr>fs := f, trace := trace s @ [[''borg'', ''init'', p, ''--encryption'', ''none'']]\<rparr>))"
  by (simp add: dir_is_repo_def try_except_def io_bind_def subprocess_run_def io_return_def
      io_raise_def Let_def split: prod.splits launch.splits)

text \<open>
  C9 fails as stated: that the engine initialises every empty directory that holds no
  repository is not a fact of this program. On a host whose engine refuses the empty
  directory \<open>/data\<close> (it cannot write there), the probe returns \<open>False\<close>, nothing is
  created, and the next probe returns \<open>False\<close> again.
\<close>

theorem dir_is_repo_refused_counterexample:
  "is_dir [(''/data'', Dir)] ''/data''
   \<and> filter (\<lambda>(q, n). is_under ''/data'' q \<and> q \<noteq> ''/data'') [(''/data'', Dir)] = []
   \<and> fst (dir_is_repo readonly_host ''/data'' (boot [(''/data'', Dir)])) = Inr False
   \<and> fs (snd (dir_is_repo readonly_host ''/data'' (boot [(''/data'', Dir)]))) = [(''/data'', Dir)]
   \<and> fst (dir_is_repo readonly_host ''/data''
            (snd (dir_is_repo readonly_host ''/data'' (boot [(''/data'', Dir)])))) = Inr False"
  by code_simp

text \<open>
  C9, amended. The probe is not read-only: it runs a real initialisation and undoes
  nothing. Whenever the engine's initialisation of \<open>d\<close> succeeds, \<open>dir_is_repo d\<close>
  returns \<open>False\<close> and leaves the file system as the initialisation made it; and when the
  engine then refuses a second initialisation with status 2 and its message, the next
  \<open>dir_is_repo d\<close> returns \<open>True\<close>.
\<close>

theorem dir_is_repo_initialises:
  assumes "spawn E [''borg'', ''init'', d, ''--encryption'', ''none''] (cwd s) (environ s) (fs s)
             = (Exited 0 out err, f1)"
    and "spawn E [''borg'', ''init'', d, ''--encryption'', ''none''] (cwd s) (environ s) f1
             = (Exited 2 out2 err2, f2)"
    and "startswith err2 ''A repository already exists at''"
  shows "dir_is_repo E d s =
           (Inr False, s\<lparr>fs := f1, trace := trace s @ [[''borg'', ''init'', d, ''--encryption'', ''none'']]\<rparr>)
       \<and> fst (dir_is_repo E d (snd (dir_is_repo E d s))) = Inr True"
  using assms
  by (simp add: dir_is_repo_def try_except_def io_bind_def subprocess_run_def io_return_def
      io_raise_def Let_def)

theorem dir_is_repo_initialises_witness:
  "spawn host [''borg'', ''init'', ''/data'', ''--encryption'', ''none''] (cwd (boot [(''/data'', Dir)]))
       (environ (boot [(''/data'', Dir)])) (fs (boot [(''/data'', Dir)]))
     = (Exited 0 [] [], [(''/data/config'', File []), (''/data'', Dir)])
   \<and> dir_is_repo host ''/data'' (boot [(''/data'', Dir)]) =
       (Inr False, (boot [(''/data'', Dir)])\<lparr>fs := [(''/data/config'', File []), (''/data'', Dir)],
          trace := trace (boot [(''/data'', Dir)]) @ [[''borg'', ''init'', ''/data'', ''--encryption'', ''none'']]\<rparr>)
   \<and> fst (dir_is_repo host ''/data'' (snd (dir_is_repo host ''/data'' (boot [(''/data'', Dir)])))) = Inr True"
proof -
  let ?s = "boot [(''/data'', Dir)]"
  let ?f1 = "[(''/data/config'', File []), (''/data'', Dir)]"
  have a: "spawn host [''borg'', ''init'', ''/data'', ''--encryption'', ''none''] (cwd ?s) (environ ?s) (fs ?s)
             = (Exited 0 [] [], ?f1)"
    by code_simp
  have b: "spawn host [''borg'', ''init'', ''/data'', ''--encryption'', ''none''] (cwd ?s) (environ ?s) ?f1
             = (Exited 2 [] ''A repository already exists at /data.'', ?f1)"
    by code_simp
  have c: "startswith ''A repository already exists at /data.'' ''A repository already exists at''"
    by code_simp
  from dir_is_repo_initialises [OF a b c] a show ?thesis by blast
qed

section \<open>Format negotiation and required commands\<close>

text \<open>
  C7. For an existing regular file with bytes \<open>b\<close>, \<open>get_best_archiver\<close> answers from
  the first four bytes alone: "squashfs" when they are the magic \<open>hsqs\<close>, "tar" for
  anything else (a shorter file too), whatever tools the host has.
\<close>

theorem get_best_archiver_sniffs_magic:
  assumes "map_of f p = Some (File b)"
  shows "get_best_archiver E f (Some p) = (if take 4 b = ''hsqs'' then ''squashfs'' else ''tar'')"
  using assms by (simp add: get_best_archiver_def)

theorem get_best_archiver_sniffs_magic_witness:
  "map_of [(''/a.baz'', File ''hsqsrest'')] ''/a.baz'' = Some (File ''hsqsrest'')
   \<and> \<not> which host ''mksquashfs''
   \<and> get_best_archiver host [(''/a.baz'', File ''hsqsrest'')] (Some ''/a.baz'') = ''squashfs''"
proof -
  have a: "map_of [(''/a.baz'', File ''hsqsrest'')] ''/a.baz'' = Some (File ''hsqsrest'')" by simp
  have w: "\<not> which host ''mksquashfs''" by (simp add: host_def)
  from get_best_archiver_sniffs_magic [OF a, of host] a w show ?thesis by simp
qed

text \<open>
  C10. Constructing a \<open>BorgArchive\<close> raises \<open>CommandNotFoundError\<close> whenever borg, tar
  or zstd is missing, with or without the squashfs tools; so on a host whose commands do
  not change, wherever construction succeeded \<open>get_best_compressor("tar")\<close> returns the
  zstd pair, never the pigz or gzip pair and never its own \<open>CommandNotFoundError\<close>.
\<close>

theorem init_requires_zstd:
  "(\<not> which E ''borg'' \<or> \<not> which E ''tar'' \<or> \<not> which E ''zstd''
      \<longrightarrow> (\<exists>m. fst (BorgArchive_init E a r s) = Inl (CommandNotFoundError m)))
   \<and> (fst (BorgArchive_init E a r s) = Inr ()
      \<longrightarrow> get_best_compressor E ''tar'' = Inr (''zstd -9'', ''zstd -d''))"
  by (auto simp add: BorgArchive_init_def io_bind_def get_def io_then_def set_self_def modify_def
      check_required_commands_def io_return_def io_raise_def get_best_compressor_def Let_def
      split: list.splits if_splits)

theorem init_requires_zstd_witness:
  "\<not> which squashfs_host ''zstd''
   \<and> (\<exists>m. fst (BorgArchive_init squashfs_host (Some ''/a.baz'') None (boot [])) = Inl (CommandNotFoundError m))
   \<and> fst (BorgArchive_init host (Some ''/a.baz'') None (boot [])) = Inr ()
   \<and> get_best_compressor host ''tar'' = Inr (''zstd -9'', ''zstd -d'')"
proof -
  have a: "\<not> which squashfs_host ''zstd''" by code_simp
  have b: "fst (BorgArchive_init host (Some ''/a.baz'') None (boot [])) = Inr ()" by code_simp
  from a init_requires_zstd [of squashfs_host "Some ''/a.baz''" None "boot []"]
  have c: "\<exists>m. fst (BorgArchive_init squashfs_host (Some ''/a.baz'') None (boot [])) = Inl (CommandNotFoundError m)"
    by blast
  from b init_requires_zstd [of host "Some ''/a.baz''" None "boot []"]
  have d: "get_best_compressor host ''tar'' = Inr (''zstd -9'', ''zstd -d'')"
    by blast
  from a b c d show ?thesis by blast
qed

section \<open>The command runner\<close>

lemma collect_append:
  "collect tm quiet n (ps @ qs) acc =
     (case collect tm quiet n ps acc of Inl e \<Rightarrow> Inl e | Inr a \<Rightarrow> collect tm quiet n qs a)"
proof (induction ps arbitrary: acc)
  case Nil
  show ?case by simp
next
  case (Cons a ps)
  obtain i p where a: "a = (i, p)" by (cases a)
  obtain out err codes where acc: "acc = (out, err, codes)" by (cases acc)
  show ?case unfolding a acc by (simp add: Cons.IH split: sum.splits prod.splits)
qed

lemma collect_early:
  "\<forall>ip \<in> set ps. Suc (fst ip) \<noteq> n \<and> (\<exists>r. communicate tm (snd ip) = Inr r) \<Longrightarrow>
   collect tm quiet n ps (out, err, codes) =
     Inr (out, (if ps = [] then err else Some []), codes @ map (\<lambda>ip. p_returncode (snd ip)) ps)"
proof (induction ps arbitrary: err codes)
  case Nil
  show ?case by simp
next
  case (Cons a ps)
  obtain i p where a: "a = (i, p)" by (cases a)
  from Cons.prems a have ne: "Suc i \<noteq> n" by simp
  from Cons.prems a obtain so se where c: "communicate tm p = Inr (so, se)" by auto
  from Cons.prems have rest: "\<forall>ip \<in> set ps. Suc (fst ip) \<noteq> n \<and> (\<exists>r. communicate tm (snd ip) = Inr r)"
    by simp
  show ?case unfolding a using ne c by (simp add: Cons.IH [OF rest])
qed

lemma collect_pipeline:
  assumes "\<forall>ip \<in> set ps. Suc (fst ip) \<noteq> n \<and> (\<exists>r. communicate tm (snd ip) = Inr r)"
    and "communicate tm p = Inr (so, se)"
  shows "collect tm quiet n (ps @ [(n - 1, p)]) (None, None, []) =
           Inr (if 0 < n then so else None,
                if 0 < n \<and> \<not> quiet then se else Some [],
                map (\<lambda>ip. p_returncode (snd ip)) ps @ [p_returncode p])"
  using assms(2) by (simp add: collect_append collect_early [OF assms(1)] falsy_def)

lemma first_nonzero:
  "k < length xs \<Longrightarrow> xs ! k \<noteq> 0 \<Longrightarrow> \<forall>j<k. xs ! j = 0 \<Longrightarrow>
   hd (filter (\<lambda>c. c \<noteq> 0) xs) = xs ! k \<and> index xs (xs ! k) = k"
proof (induction k arbitrary: xs)
  case 0
  then obtain x ys where xs: "xs = x # ys" by (cases xs) auto
  with 0 show ?case by (simp add: index_def)
next
  case (Suc k)
  then obtain x ys where xs: "xs = x # ys" by (cases xs) auto
  from Suc.prems xs have x0: "x = 0" by auto
  from Suc.prems xs have a: "k < length ys" and b: "ys ! k \<noteq> 0" by auto
  from Suc.prems xs have c: "\<forall>j<k. ys ! j = 0" by auto
  from Suc.IH [OF a b c] have ih: "hd (filter (\<lambda>c. c \<noteq> 0) ys) = ys ! k" "index ys (ys ! k) = k"
    by auto
  from ih x0 b xs show ?case by (simp add: index_def)
qed

lemma zip_upt_snoc:
  assumes "cmds \<noteq> []"
  shows "zip [0..<length cmds] cmds =
           zip [0..<length cmds - 1] (butlast cmds) @ [(length cmds - 1, last cmds)]"
proof -
  from assms have n: "0 < length cmds" by simp
  have a: "[0..<length cmds] = [0..<length cmds - 1] @ [length cmds - 1]"
    using n by (cases "length cmds") simp_all
  have b: "cmds = butlast cmds @ [last cmds]" using assms by simp
  have "zip ([0..<length cmds - 1] @ [length cmds - 1]) (butlast cmds @ [last cmds]) =
          zip [0..<length cmds - 1] (butlast cmds) @ zip [length cmds - 1] [last cmds]"
    by (rule zip_append) simp
  moreover have "zip [0..<length cmds] cmds =
          zip ([0..<length cmds - 1] @ [length cmds - 1]) (butlast cmds @ [last cmds])"
    by (rule arg_cong2 [where f = zip, OF a b])
  ultimately show ?thesis by simp
qed

lemma collect_stages:
  assumes ne: "cmds \<noteq> []"
    and stages: "\<forall>i<length cmds. r i = Exited (rc i) (out i) (err i)"
    and pipes: "\<not> quiet \<or> length cmds = 1"
  shows "collect tm quiet (length cmds) (map (popen quiet (length cmds) r) (zip [0..<length cmds] cmds))
           (None, None, []) =
         Inr (if length cmds = 1 then Some (out 0) else None,
              if quiet then Some [] else Some (err (length cmds - 1)),
              map rc [0..<length cmds])"
proof -
  let ?n = "length cmds"
  let ?ps = "map (popen quiet ?n r) (zip [0..<?n - 1] (butlast cmds))"
  from ne have n: "0 < ?n" by simp
  have stage: "popen quiet ?n r (i, cm) =
          (i, \<lparr>p_cmd = cm,
               p_stdout = (if ?n = 1 then OpenPipe else if Suc i < ?n then ClosedPipe else NoPipe),
               p_stderr = (if quiet then NoPipe else OpenPipe),
               p_out = out i, p_err = err i, p_returncode = rc i\<rparr>)" if "i < ?n" for i cm
    using that stages by (simp add: popen_def)
  have early: "\<forall>ip \<in> set ?ps. Suc (fst ip) \<noteq> ?n \<and> (\<exists>r. communicate tm (snd ip) = Inr r)"
  proof
    fix ip assume "ip \<in> set ?ps"
    then obtain i cm where m: "(i, cm) \<in> set (zip [0..<?n - 1] (butlast cmds))"
      and ip: "ip = popen quiet ?n r (i, cm)" by auto
    from m have i: "i < ?n - 1" by (auto dest: set_zip_leftD)
    then have "?n \<noteq> 1" by simp
    with pipes have nq: "\<not> quiet" by simp
    from i have "i < ?n" by simp
    from stage [OF this, of cm] i nq show "Suc (fst ip) \<noteq> ?n \<and> (\<exists>r. communicate tm (snd ip) = Inr r)"
      unfolding ip by (simp add: communicate_def)
  qed
  have codes: "map (\<lambda>ip. p_returncode (snd ip)) ?ps = map rc [0..<?n - 1]"
  proof (rule nth_equalityI)
    show "length (map (\<lambda>ip. p_returncode (snd ip)) ?ps) = length (map rc [0..<?n - 1])" by simp
  next
    fix i assume "i < length (map (\<lambda>ip. p_returncode (snd ip)) ?ps)"
    then have i: "i < ?n - 1" by simp
    then have "i < ?n" by simp
    from stage [OF this] i show "map (\<lambda>ip. p_returncode (snd ip)) ?ps ! i = map rc [0..<?n - 1] ! i"
      by simp
  qed
  let ?p = "\<lparr>p_cmd = last cmds,
             p_stdout = (if ?n = 1 then OpenPipe else NoPipe),
             p_stderr = (if quiet then NoPipe else OpenPipe),
             p_out = out (?n - 1), p_err = err (?n - 1), p_returncode = rc (?n - 1)\<rparr>"
  from n have "?n - 1 < ?n" by simp
  from stage [OF this, of "last cmds"] n
  have pl: "popen quiet ?n r (?n - 1, last cmds) = (?n - 1, ?p)" by simp
  have split_last: "map (popen quiet ?n r) (zip [0..<?n] cmds) = ?ps @ [(?n - 1, ?p)]"
    by (simp only: zip_upt_snoc [OF ne] map_append list.map pl)
  have com: "communicate tm ?p =
               Inr (if ?n = 1 then Some (out (?n - 1)) else None,
                    if quiet then None else Some (err (?n - 1)))"
    using pipes by (auto simp add: communicate_def)
  have upt: "map rc [0..<?n - 1] @ [rc (?n - 1)] = map rc [0..<?n]"
    using n by (cases "length cmds") simp_all
  show ?thesis
    unfolding split_last collect_pipeline [OF early com] codes
    using n upt by auto
qed

text \<open>
  With stderr suppressed and two or more stages, the loop fails at the first process:
  \<open>communicate()\<close> reads the stdout pipe that \<open>run_pipeline\<close> has closed.
\<close>

lemma run_pipeline_closed_pipe:
  "fst (run_pipeline host [[''tar'', ''-cv'', ''repo''], [''zstd'', ''-9'']] True None (Some ''/a.baz'')
          None True (boot [])) = Inl (ValueError (Text ''read of closed file''))"
  by code_simp

text \<open>
  C8 fails as stated. In a checked two-stage pipe whose first stage exits with status 2
  and whose second stage exits with status 0, the error names the first stage's command,
  but its exit status is the last stage's (0, not 2) and its stdout is the last stage's
  (nothing is captured from the stage that failed).
\<close>

theorem run_pipeline_exit_status_counterexample:
  "fst (pipeline failing_tar_host [[''tar'', ''-cv'', ''repo''], [''zstd'', ''-9'']] None (Some ''/a.baz'')
          ''/home'' [] []) 0 = Exited 2 [] ''tar: error''
   \<and> fst (run_pipeline failing_tar_host [[''tar'', ''-cv'', ''repo''], [''zstd'', ''-9'']] True None
          (Some ''/a.baz'') None False (boot []))
       = Inl (CalledProcessError 0 [''tar'', ''-cv'', ''repo''] None (Some []))"
  by code_simp

text \<open>
  C8, amended. For a pipeline of at least one stage whose stages all start, run with
  stderr not suppressed or with a single stage: with checking enabled and stage \<open>k\<close> the
  first to exit non-zero, \<open>run_pipeline\<close> raises a \<open>CalledProcessError\<close> that names the
  command of stage \<open>k\<close> and carries the stdout captured from the last stage (the output of
  a one-stage pipeline, nothing when the last of several stages writes elsewhere) and the
  last stage's stderr (the empty string when stderr is suppressed); with checking disabled
  or every stage exiting zero it raises nothing and returns a completed process for the
  last command, with the last stage's exit status and the same streams.
\<close>

theorem run_pipeline_outcome:
  assumes ne: "cmds \<noteq> []"
    and env: "pipeline E cmds stdin stdout_file (cwd s) (environ s) (fs s) = (r, f)"
    and stages: "\<forall>i<length cmds. r i = Exited (rc i) (out i) (err i)"
    and pipes: "\<not> quiet \<or> length cmds = 1"
  shows
    "(check \<and> k < length cmds \<and> rc k \<noteq> 0 \<and> (\<forall>j<k. rc j = 0) \<longrightarrow>
        (\<exists>code. run_pipeline E cmds check stdin stdout_file encoding quiet s =
           (Inl (CalledProcessError code (cmds ! k)
                  (if length cmds = 1 then Some (out 0) else None)
                  (if quiet then Some [] else Some (err (length cmds - 1)))),
            s\<lparr>fs := f, trace := trace s @ cmds\<rparr>)))
     \<and> (\<not> check \<or> (\<forall>i<length cmds. rc i = 0) \<longrightarrow>
          run_pipeline E cmds check stdin stdout_file encoding quiet s =
            (Inr \<lparr>args = last cmds, returncode = rc (length cmds - 1),
                  stdout = (if length cmds = 1 then Some (out 0) else None),
                  stderr = (if quiet then Some [] else Some (err (length cmds - 1)))\<rparr>,
             s\<lparr>fs := f, trace := trace s @ cmds\<rparr>))"
proof -
  let ?n = "length cmds"
  from ne have n: "0 < ?n" by simp
  have st: "list_all (\<lambda>i. started (r i)) [0..<?n]"
    using stages by (simp add: list_all_iff started_def)
  have ex: "list_ex (\<lambda>code. code \<noteq> 0) (map rc [0..<?n]) = (\<exists>i<?n. rc i \<noteq> 0)"
    by (auto simp: list_ex_iff)
  have la: "last (map rc [0..<?n]) = rc (?n - 1)"
    using n by (simp add: last_map last_upt)
  have run: "run_pipeline E cmds check stdin stdout_file encoding quiet s =
       (if check \<and> (\<exists>i<?n. rc i \<noteq> 0) then
          (Inl (CalledProcessError (rc (?n - 1))
                  (cmds ! index (map rc [0..<?n]) (hd (filter (\<lambda>code. code \<noteq> 0) (map rc [0..<?n]))))
                  (if ?n = 1 then Some (out 0) else None)
                  (if quiet then Some [] else Some (err (?n - 1)))),
           s\<lparr>fs := f, trace := trace s @ cmds\<rparr>)
        else
          (Inr \<lparr>args = last cmds, returncode = rc (?n - 1),
                stdout = (if ?n = 1 then Some (out 0) else None),
                stderr = (if quiet then Some [] else Some (err (?n - 1)))\<rparr>,
           s\<lparr>fs := f, trace := trace s @ cmds\<rparr>))"
    unfolding run_pipeline_def Let_def
    by (simp only: ne env st collect_stages [OF ne stages pipes] ex la if_False
        prod.case sum.case if_True not_not simp_thms)
  show ?thesis
  proof (intro conjI impI)
    assume a: "check \<and> k < ?n \<and> rc k \<noteq> 0 \<and> (\<forall>j<k. rc j = 0)"
    then have k: "k < length (map rc [0..<?n])" and nz: "map rc [0..<?n] ! k \<noteq> 0"
      and z: "\<forall>j<k. map rc [0..<?n] ! j = 0" by auto
    from first_nonzero [OF k nz z] a
    have "index (map rc [0..<?n]) (hd (filter (\<lambda>code. code \<noteq> 0) (map rc [0..<?n]))) = k" by simp
    moreover from a have "check \<and> (\<exists>i<?n. rc i \<noteq> 0)" by blast
    ultimately show "\<exists>code. run_pipeline E cmds check stdin stdout_file encoding quiet s =
           (Inl (CalledProcessError code (cmds ! k)
                  (if ?n = 1 then Some (out 0) else None)
                  (if quiet then Some [] else Some (err (?n - 1)))),
            s\<lparr>fs := f, trace := trace s @ cmds\<rparr>)"
      unfolding run by simp
  next
    assume "\<not> check \<or> (\<forall>i<?n. rc i = 0)"
    then have "\<not> (check \<and> (\<exists>i<?n. rc i \<noteq> 0))" by blast
    then show "run_pipeline E cmds check stdin stdout_file encoding quiet s =
            (Inr \<lparr>args = last cmds, returncode = rc (?n - 1),
                  stdout = (if ?n = 1 then Some (out 0) else None),
                  stderr = (if quiet then Some [] else Some (err (?n - 1)))\<rparr>,
             s\<lparr>fs := f, trace := trace s @ cmds\<rparr>)"
      unfolding run by simp
  qed
qed

theorem run_pipeline_outcome_witness:
  "(\<exists>code. run_pipeline failing_tar_host [[''tar'', ''-cv'', ''repo''], [''zstd'', ''-9'']] True None
              (Some ''/a.baz'') None False (boot []) =
            (Inl (CalledProcessError code [''tar'', ''-cv'', ''repo''] None (Some [])),
             (boot [])\<lparr>fs := [], trace := [[''tar'', ''-cv'', ''repo''], [''zstd'', ''-9'']]\<rparr>))
   \<and> run_pipeline failing_tar_host [[''tar'', ''-cv'', ''repo''], [''zstd'', ''-9'']] False None
         (Some ''/a.baz'') None False (boot []) =
       (Inr \<lparr>args = [''zstd'', ''-9''], returncode = 0, stdout = None, stderr = Some []\<rparr>,
        (boot [])\<lparr>fs := [], trace := [[''tar'', ''-cv'', ''repo''], [''zstd'', ''-9'']]\<rparr>)
   \<and> run_pipeline host [[''borg'', ''list'']] True None None (Some ''utf-8'') True (boot []) =
       (Inr \<lparr>args = [''borg'', ''list''], returncode = 0, stdout = Some [], stderr = Some []\<rparr>,
        (boot [])\<lparr>fs := [], trace := [[''borg'', ''list'']]\<rparr>)"
proof -
  let ?cmds = "[[''tar'', ''-cv'', ''repo''], [''zstd'', ''-9'']]"
  let ?r = "\<lambda>i::nat. if i = 0 then Exited 2 [] ''tar: error'' else Exited 0 [] []"
  let ?rc = "\<lambda>i::nat. if i = 0 then 2 else (0::int)"
  let ?out = "\<lambda>i::nat. []::string"
  let ?err = "\<lambda>i::nat. if i = 0 then ''tar: error'' else []"
  have ne: "?cmds \<noteq> []" by simp
  have env: "pipeline failing_tar_host ?cmds None (Some ''/a.baz'') (cwd (boot [])) (environ (boot []))
               (fs (boot [])) = (?r, [])"
    by (simp add: failing_tar_host_def host_def boot_def)
  have stages: "\<forall>i<length ?cmds. ?r i = Exited (?rc i) (?out i) (?err i)" by simp
  have pipes: "\<not> False \<or> length ?cmds = 1" by simp
  have tr: "trace (boot []) @ ?cmds = ?cmds" by (simp add: boot_def)
  from run_pipeline_outcome [OF ne env stages pipes, of True 0 None]
  have a: "\<exists>code. run_pipeline failing_tar_host ?cmds True None (Some ''/a.baz'') None False (boot []) =
            (Inl (CalledProcessError code [''tar'', ''-cv'', ''repo''] None (Some [])),
             (boot [])\<lparr>fs := [], trace := ?cmds\<rparr>)"
    by (simp add: tr)
  from run_pipeline_outcome [OF ne env stages pipes, of False 0 None]
  have b: "run_pipeline failing_tar_host ?cmds False None (Some ''/a.baz'') None False (boot []) =
       (Inr \<lparr>args = [''zstd'', ''-9''], returncode = 0, stdout = None, stderr = Some []\<rparr>,
        (boot [])\<lparr>fs := [], trace := ?cmds\<rparr>)"
    by (simp add: tr)
  let ?one = "[[''borg'', ''list'']]"
  let ?r1 = "\<lambda>i::nat. Exited 0 [] []"
  have ne1: "?one \<noteq> []" by simp
  have env1: "pipeline host ?one None None (cwd (boot [])) (environ (boot [])) (fs (boot [])) = (?r1, [])"
    by (simp add: host_def boot_def)
  have stages1: "\<forall>i<length ?one. ?r1 i = Exited ((\<lambda>i. 0) i) ((\<lambda>i. []) i) ((\<lambda>i. []) i)" by simp
  have pipes1: "\<not> True \<or> length ?one = 1" by simp
  have tr1: "trace (boot []) @ ?one = ?one" by (simp add: boot_def)
  from run_pipeline_outcome [OF ne1 env1 stages1 pipes1, of True 0 "Some ''utf-8''"]
  have c: "run_pipeline host ?one True None None (Some ''utf-8'') True (boot []) =
       (Inr \<lparr>args = [''borg'', ''list''], returncode = 0, stdout = Some [], stderr = Some []\<rparr>,
        (boot [])\<lparr>fs := [], trace := ?one\<rparr>)"
    by (simp add: tr1)
  from a b c show ?thesis by blast
qed

section \<open>The lifecycle controller\<close>

lemma keepsD:
  "keeps m \<Longrightarrow> self (snd (m s)) = self s \<and> trace (snd (m s)) = trace s
     \<and> cwd (snd (m s)) = cwd s \<and> environ (snd (m s)) = environ s"
  by (simp add: keeps_def)

lemma keeps_return: "keeps (io_return x)"
  by (simp add: keeps_def io_return_def)

lemma keeps_io_of: "keeps (io_of r)"
  by (simp add: keeps_def io_of_def)

lemma keeps_get: "keeps (get g)"
  by (simp add: keeps_def get_def)

lemma keeps_bind: "keeps m \<Longrightarrow> (\<And>x. keeps (k x)) \<Longrightarrow> keeps (io_bind m k)"
  unfolding keeps_def io_bind_def
  by (auto split: prod.splits sum.splits) (metis snd_conv)+

lemma keeps_then: "keeps m \<Longrightarrow> keeps k \<Longrightarrow> keeps (io_then m k)"
  by (simp add: io_then_def keeps_bind)

lemma keeps_if: "keeps a \<Longrightarrow> keeps b \<Longrightarrow> keeps (if c then a else b)"
  by simp

lemma keeps_rmtree: "keeps (rmtree p)"
  by (simp add: keeps_def rmtree_def)

lemma keeps_rmtree_if_exists: "keeps (rmtree_if_exists p)"
  unfolding rmtree_if_exists_def
  by (intro keeps_bind keeps_get keeps_if keeps_rmtree keeps_return)

lemma keeps_purge_info: "keeps (purge_info info)"
  unfolding purge_info_def
  by (intro keeps_then keeps_bind keeps_io_of keeps_if keeps_return keeps_rmtree_if_exists)

lemma swallow_fst: "fst (try_except m (\<lambda>e. io_return ()) s) = Inr ()"
  by (simp add: try_except_def io_return_def split: prod.splits sum.splits)

lemma swallow_snd: "snd (try_except m (\<lambda>e. io_return ()) s) = snd (m s)"
  by (simp add: try_except_def io_return_def split: prod.splits sum.splits)

lemma io_then_ok: "fst (a s) = Inr () \<Longrightarrow> io_then a b s = b (snd (a s))"
  by (cases "a s") (simp add: io_then_def io_bind_def)

lemma try_except_snd: "(\<And>e t. snd (h e t) = t) \<Longrightarrow> snd (try_except m h s) = snd (m s)"
  by (simp add: try_except_def split: prod.splits sum.splits)

lemma subprocess_run_snd:
  "snd (subprocess_run E c ch cap s) =
     s\<lparr>fs := snd (spawn E c (cwd s) (environ s) (fs s)), trace := trace s @ [c]\<rparr>"
  by (simp add: subprocess_run_def Let_def split: prod.splits launch.splits)

lemma run_command_snd:
  "snd (run_command E c ch cap q s) =
     s\<lparr>fs := snd (spawn E (map fspath c) (cwd s) (environ s) (fs s)), trace := trace s @ [map fspath c]\<rparr>"
proof -
  have h: "snd ((case e of CalledProcessError _ _ _ _ \<Rightarrow> if list_all is_str c then io_raise e else io_raise TypeError
                 | _ \<Rightarrow> io_raise e) t) = t" for e :: exn and t :: state
    by (cases e) (simp_all add: io_raise_def)
  show ?thesis
    unfolding run_command_def by (simp only: try_except_snd [where h = "\<lambda>e. case e of CalledProcessError _ _ _ _ \<Rightarrow> if list_all is_str c then io_raise e else io_raise TypeError
                 | _ \<Rightarrow> io_raise e", OF h] subprocess_run_snd)
qed

lemma run_command_unchecked:
  "spawn E (map fspath c) (cwd s) (environ s) (fs s) = (Exited rc out err, f) \<Longrightarrow>
   fst (run_command E c False cap q s) =
     Inr \<lparr>args = map fspath c, returncode = rc, stdout = (if cap then Some out else None),
          stderr = (if cap then Some err else None)\<rparr>"
  by (simp add: run_command_def try_except_def subprocess_run_def Let_def)

lemma remove_tree_under: "is_under p q \<Longrightarrow> map_of (remove_tree p f) q = None"
  by (auto simp add: remove_tree_def map_of_eq_None_iff)

lemma remove_tree_keeps_gone: "map_of f q = None \<Longrightarrow> map_of (remove_tree p f) q = None"
  by (auto simp add: remove_tree_def map_of_eq_None_iff)

lemma is_under_trans: "is_under a b \<Longrightarrow> is_under b c \<Longrightarrow> is_under a c"
proof -
  assume ab: "is_under a b" and bc: "is_under b c"
  show ?thesis
  proof (cases "b = a")
    case True
    with bc show ?thesis by simp
  next
    case False
    with ab have tb: "take (Suc (length a)) b = a @ ''/''" by (simp add: is_under_def)
    then have "length (take (Suc (length a)) b) = Suc (length a)" by simp
    then have lb: "Suc (length a) \<le> length b" by simp
    show ?thesis
    proof (cases "c = b")
      case True
      with ab show ?thesis by simp
    next
      case False
      with bc have tc: "take (Suc (length b)) c = b @ ''/''" by (simp add: is_under_def)
      have "take (Suc (length a)) c = take (Suc (length a)) (take (Suc (length b)) c)"
        using lb by (simp add: min_def)
      also have "\<dots> = take (Suc (length a)) (b @ ''/'')" by (simp only: tc)
      also have "\<dots> = take (Suc (length a)) b" using lb by simp
      finally show ?thesis using tb by (simp add: is_under_def)
    qed
  qed
qed

lemma purge_info_exact:
  assumes "map_of kvs ''cache'' = Some (JObj ckvs)"
    and "map_of ckvs ''path'' = Some (JStr cp)"
    and "map_of kvs ''security_dir'' = Some (JStr sd)"
    and "is_dir (fs s) cp"
    and "is_dir (remove_tree cp (fs s)) sd"
  shows "purge_info (JObj kvs) s = (Inr (), s\<lparr>fs := remove_tree sd (remove_tree cp (fs s))\<rparr>)"
  using assms
  by (simp add: purge_info_def io_then_def io_bind_def io_of_def py_in_def py_getitem_def py_path_def
      rmtree_if_exists_def get_def exists_def is_dir_def rmtree_def io_return_def)

lemma fspath_Str [simp]: "fspath (Str t) = t"
  by (simp add: fspath_def)

lemma fspath_PathArg [simp]: "fspath (PathArg p) = p"
  by (simp add: fspath_def)

lemma fspath_either [simp]: "fspath (case arg of None \<Rightarrow> PathArg p | Some x \<Rightarrow> Str p) = p"
  by (simp split: option.splits)

lemma cleanup_borg_files_frame:
  assumes "(case arg of None \<Rightarrow> borg_dir (self s) | Some p \<Rightarrow> Some p) = Some p"
  shows "fst (cleanup_borg_files E arg s) = Inr ()
       \<and> self (snd (cleanup_borg_files E arg s)) = self s
       \<and> trace (snd (cleanup_borg_files E arg s)) = trace s @ [[''borg'', ''info'', ''--error'', ''--json'', p]]
       \<and> cwd (snd (cleanup_borg_files E arg s)) = cwd s
       \<and> environ (snd (cleanup_borg_files E arg s)) = borg_environ (environ s)"
proof -
  let ?c = "map Str [''borg'', ''info'', ''--error'', ''--json''] @
              [case arg of None \<Rightarrow> PathArg p | Some _ \<Rightarrow> Str p]"
  let ?s1 = "s\<lparr>environ := borg_environ (environ s)\<rparr>"
  obtain r s2 where rc: "run_command E ?c False True True ?s1 = (r, s2)"
    by (cases "run_command E ?c False True True ?s1")
  from run_command_snd [of E ?c False True True ?s1] rc
  have f2: "self s2 = self s" "trace s2 = trace s @ [[''borg'', ''info'', ''--error'', ''--json'', p]]"
    "cwd s2 = cwd s" "environ s2 = borg_environ (environ s)"
    by simp_all
  let ?body = "io_bind (get (\<lambda>s. case arg of None \<Rightarrow> borg_dir (self s) | Some p \<Rightarrow> Some p)) (\<lambda>rp.
        io_then set_borg_environ
       (io_bind (the_path rp) (\<lambda>tmp_repo_path.
        io_bind (run_command E
                  (map Str [''borg'', ''info'', ''--error'', ''--json''] @
                   [case arg of None \<Rightarrow> PathArg tmp_repo_path | Some _ \<Rightarrow> Str tmp_repo_path])
                  False True True) (\<lambda>result.
          if returncode result \<noteq> 0 then io_return ()
          else
            io_bind (case stdout result of None \<Rightarrow> io_raise TypeError
                     | Some t \<Rightarrow> (case json_loads E t of None \<Rightarrow> io_raise (ValueError (Text ''JSONDecodeError''))
                                   | Some j \<Rightarrow> io_return j))
              purge_info))))"
  have body: "self (snd (?body s)) = self s
       \<and> trace (snd (?body s)) = trace s @ [[''borg'', ''info'', ''--error'', ''--json'', p]]
       \<and> cwd (snd (?body s)) = cwd s \<and> environ (snd (?body s)) = borg_environ (environ s)"
  proof (cases r)
    case (Inl e)
    with rc assms f2 show ?thesis
      by (simp add: io_bind_def get_def io_then_def set_borg_environ_def modify_def the_path_def
          io_return_def)
  next
    case (Inr result)
    show ?thesis
    proof (cases "returncode result \<noteq> 0")
      case True
      with Inr rc assms f2 show ?thesis
        by (simp add: io_bind_def get_def io_then_def set_borg_environ_def modify_def the_path_def
            io_return_def)
    next
      case False
      have k: "self (snd (purge_info j s2)) = self s2 \<and> trace (snd (purge_info j s2)) = trace s2
             \<and> cwd (snd (purge_info j s2)) = cwd s2 \<and> environ (snd (purge_info j s2)) = environ s2" for j
        by (rule keepsD [OF keeps_purge_info])
      from False Inr rc assms f2 k show ?thesis
        by (auto simp add: io_bind_def get_def io_then_def set_borg_environ_def modify_def the_path_def
            io_return_def io_raise_def split: option.splits)
    qed
  qed
  show ?thesis
    unfolding cleanup_borg_files_def using body by (simp add: swallow_fst swallow_snd)
qed

lemma cleanup_borg_files_purges:
  assumes p: "(case arg of None \<Rightarrow> borg_dir (self s) | Some p \<Rightarrow> Some p) = Some p"
    and info: "spawn E [''borg'', ''info'', ''--error'', ''--json'', p] (cwd s) (borg_environ (environ s)) (fs s)
                 = (Exited 0 out err, f1)"
    and js: "json_loads E out = Some (JObj kvs)"
    and c1: "map_of kvs ''cache'' = Some (JObj ckvs)"
    and c2: "map_of ckvs ''path'' = Some (JStr cp)"
    and c3: "map_of kvs ''security_dir'' = Some (JStr sd)"
    and d1: "is_dir f1 cp"
    and d2: "is_dir (remove_tree cp f1) sd"
  shows "fs (snd (cleanup_borg_files E arg s)) = remove_tree sd (remove_tree cp f1)"
proof -
  let ?c = "map Str [''borg'', ''info'', ''--error'', ''--json''] @
              [case arg of None \<Rightarrow> PathArg p | Some _ \<Rightarrow> Str p]"
  let ?s1 = "s\<lparr>environ := borg_environ (environ s)\<rparr>"
  let ?s2 = "?s1\<lparr>fs := f1, trace := trace s @ [[''borg'', ''info'', ''--error'', ''--json'', p]]\<rparr>"
  from info have sp: "spawn E (map fspath ?c) (cwd ?s1) (environ ?s1) (fs ?s1) = (Exited 0 out err, f1)"
    by simp
  from run_command_unchecked [OF sp, of True True]
  have r1: "fst (run_command E ?c False True True ?s1) =
              Inr \<lparr>args = map fspath ?c, returncode = 0, stdout = Some out, stderr = Some err\<rparr>"
    by simp
  from run_command_snd [of E ?c False True True ?s1] sp
  have r2: "snd (run_command E ?c False True True ?s1) = ?s2"
    by simp
  from r1 r2 have rc: "run_command E ?c False True True ?s1 =
      (Inr \<lparr>args = map fspath ?c, returncode = 0, stdout = Some out, stderr = Some err\<rparr>, ?s2)"
    by (simp add: prod_eq_iff)
  from d1 d2 have d: "is_dir (fs ?s2) cp" "is_dir (remove_tree cp (fs ?s2)) sd" by simp_all
  from purge_info_exact [OF c1 c2 c3 d]
  have pg: "purge_info (JObj kvs) ?s2 = (Inr (), ?s2\<lparr>fs := remove_tree sd (remove_tree cp (fs ?s2))\<rparr>)" .
  show ?thesis
    unfolding cleanup_borg_files_def
    using p rc js pg
    by (simp add: swallow_snd io_bind_def get_def io_then_def set_borg_environ_def modify_def the_path_def
        io_return_def)
qed

lemma delete_borg_repo_state:
  assumes "borg_dir (self s) = Some bd"
  shows "fst (delete_borg_repo E s) = Inr ()
       \<and> snd (delete_borg_repo E s) =
           (snd (cleanup_borg_files E None s))
             \<lparr>environ := borg_environ (borg_environ (environ s)),
              fs := snd (spawn E [''borg'', ''delete'', ''--error'', ''--force'', bd] (cwd s)
                          (borg_environ (borg_environ (environ s)))
                          (fs (snd (cleanup_borg_files E None s)))),
              trace := trace s @ [[''borg'', ''info'', ''--error'', ''--json'', bd],
                                  [''borg'', ''delete'', ''--error'', ''--force'', bd]]\<rparr>"
proof -
  let ?s1 = "snd (cleanup_borg_files E None s)"
  from assms have a: "(case None of None \<Rightarrow> borg_dir (self s) | Some p \<Rightarrow> Some p) = Some bd" by simp
  note c = cleanup_borg_files_frame [OF a, of E]
  from c have ok: "fst (cleanup_borg_files E None s) = Inr ()" by simp
  from c assms have bd1: "borg_dir (self ?s1) = Some bd" by simp
  let ?rest = "try_except
          (io_then set_borg_environ
             (io_bind (get (\<lambda>s. borg_dir (self s))) (\<lambda>bd.
              io_bind (the_path bd) (\<lambda>d.
              io_bind (run_command E (map Str [''borg'', ''delete'', ''--error'', ''--force''] @ [PathArg d]) False False True)
                (\<lambda>_. io_return ())))))
          (\<lambda>e. io_return ())"
  have d: "delete_borg_repo E s = ?rest ?s1"
    unfolding delete_borg_repo_def by (rule io_then_ok [where a = "cleanup_borg_files E None" and s = s, OF ok])
  have "snd (?rest ?s1) =
          snd (run_command E (map Str [''borg'', ''delete'', ''--error'', ''--force''] @ [PathArg bd]) False False True
                 (?s1\<lparr>environ := borg_environ (environ ?s1)\<rparr>))"
    using bd1
    by (simp add: swallow_snd io_then_def io_bind_def set_borg_environ_def modify_def get_def
        the_path_def io_return_def split: prod.splits sum.splits)
  with c show ?thesis
    unfolding d by (simp add: swallow_fst run_command_snd)
qed

lemma remove_temp_dir_outcome:
  assumes "temp_dir (self s) = Some td"
  shows "self (snd (remove_temp_dir None s)) = self s
       \<and> trace (snd (remove_temp_dir None s)) = trace s
       \<and> (fst (remove_temp_dir None s) = Inr () \<and> \<not> exists (fs (snd (remove_temp_dir None s))) td
          \<or> fst (remove_temp_dir None s) = Inl OSError \<and> is_file (fs (snd (remove_temp_dir None s))) td)"
proof (cases "map_of (fs s) td")
  case None
  with assms show ?thesis
    by (simp add: remove_temp_dir_def io_bind_def get_def the_path_def io_return_def exists_def)
next
  case (Some n)
  show ?thesis
  proof (cases n)
    case Dir
    with Some assms show ?thesis
      by (simp add: remove_temp_dir_def io_bind_def get_def the_path_def io_return_def exists_def
          rmtree_def is_dir_def remove_tree_under is_under_def)
  next
    case (File b)
    with Some assms show ?thesis
      by (simp add: remove_temp_dir_def io_bind_def get_def the_path_def io_return_def exists_def
          rmtree_def is_dir_def is_file_def)
  qed
qed

lemma remove_temp_dir_tree:
  assumes "temp_dir (self s) = Some td" and "is_dir (fs s) td"
  shows "remove_temp_dir None s = (Inr (), s\<lparr>fs := remove_tree td (fs s)\<rparr>)"
  using assms
  by (simp add: remove_temp_dir_def io_bind_def get_def the_path_def io_return_def exists_def
      rmtree_def is_dir_def)

lemma io_then_Inr: "io_then a b s = (Inr x, s') \<Longrightarrow> \<exists>s1. b s1 = (Inr x, s')"
  by (auto simp add: io_then_def io_bind_def split: prod.splits sum.splits)

lemma mount_marks_mounted: "mount E mount_dir tag s0 = (Inr (), s) \<Longrightarrow> is_mounted (self s)"
proof -
  assume "mount E mount_dir tag s0 = (Inr (), s)"
  then obtain s1 where "set_self (\<lambda>b. b\<lparr>is_mounted := True\<rparr>) s1 = (Inr (), s)"
    unfolding mount_def by (blast dest!: io_then_Inr)
  then show ?thesis by (auto simp add: set_self_def modify_def)
qed

lemma exit_mounted: "is_mounted (self s) \<Longrightarrow> BorgArchive_exit E s = (Inr (), s)"
  by (simp add: BorgArchive_exit_def io_bind_def get_def io_return_def)

lemma exit_unfold:
  assumes nm: "\<not> is_mounted (self s)"
    and bd: "borg_dir (self s) = Some bd"
    and t: "borg_dir_is_temp (self s) = Some t"
  shows "BorgArchive_exit E s =
           remove_temp_dir None
             (if t then
                snd (delete_borg_repo E
                  (if sqfs_is_mounted (self s) then
                     s\<lparr>fs := snd (spawn E [''umount'', bd] (cwd s) (environ s) (fs s)),
                       trace := trace s @ [[''umount'', bd]]\<rparr>
                   else s))
              else
                (if sqfs_is_mounted (self s) then
                   s\<lparr>fs := snd (spawn E [''umount'', bd] (cwd s) (environ s) (fs s)),
                     trace := trace s @ [[''umount'', bd]]\<rparr>
                 else s))"
proof -
  let ?s1 = "if sqfs_is_mounted (self s) then
               s\<lparr>fs := snd (spawn E [''umount'', bd] (cwd s) (environ s) (fs s)),
                 trace := trace s @ [[''umount'', bd]]\<rparr>
             else s"
  let ?u = "io_bind (get (\<lambda>s. sqfs_is_mounted (self s))) (\<lambda>sqfs.
              if sqfs then
                try_except
                  (io_bind (get (\<lambda>s. borg_dir (self s))) (\<lambda>bd.
                   io_bind (the_path bd) (\<lambda>d.
                   io_bind (run_command E [Str ''umount'', PathArg d] True False False) (\<lambda>_. io_return ()))))
                  (\<lambda>e. io_return ())
              else io_return ())"
  have u: "?u s = (Inr (), ?s1)"
  proof (cases "sqfs_is_mounted (self s)")
    case False
    then show ?thesis by (simp add: io_bind_def get_def io_return_def)
  next
    case True
    let ?m = "io_bind (get (\<lambda>s. borg_dir (self s))) (\<lambda>bd.
                   io_bind (the_path bd) (\<lambda>d.
                   io_bind (run_command E [Str ''umount'', PathArg d] True False False) (\<lambda>_. io_return ())))"
    have "snd (?m s) = snd (run_command E [Str ''umount'', PathArg bd] True False False s)"
      using bd by (simp add: io_bind_def get_def the_path_def io_return_def split: prod.splits sum.splits)
    then have "snd (try_except ?m (\<lambda>e. io_return ()) s) = ?s1"
      using True by (simp add: swallow_snd run_command_snd)
    moreover have "fst (try_except ?m (\<lambda>e. io_return ()) s) = Inr ()" by (rule swallow_fst)
    ultimately have "try_except ?m (\<lambda>e. io_return ()) s = (Inr (), ?s1)" by (simp add: prod_eq_iff)
    with True show ?thesis by (simp add: io_bind_def get_def)
  qed
  have s1: "self ?s1 = self s" by simp
  let ?d = "io_bind (get (\<lambda>s. borg_dir_is_temp (self s))) (\<lambda>is_temp.
              case is_temp of
                None \<Rightarrow> io_raise AttributeError
              | Some t \<Rightarrow> if t then delete_borg_repo E else io_return ())"
  let ?s2 = "if t then snd (delete_borg_repo E ?s1) else ?s1"
  have d: "?d ?s1 = (Inr (), ?s2)"
  proof (cases t)
    case False
    with t s1 show ?thesis by (simp add: io_bind_def get_def io_return_def)
  next
    case True
    from bd s1 have "borg_dir (self ?s1) = Some bd" by simp
    from delete_borg_repo_state [OF this, of E]
    have "fst (delete_borg_repo E ?s1) = Inr ()" by (rule conjunct1)
    then have "delete_borg_repo E ?s1 = (Inr (), snd (delete_borg_repo E ?s1))" by (simp add: prod_eq_iff)
    with True t s1 show ?thesis by (simp add: io_bind_def get_def)
  qed
  show ?thesis
    using nm u d
    by (simp add: BorgArchive_exit_def DEBUG_def io_bind_def [of "get (\<lambda>s. is_mounted (self s))"]
        get_def [of "\<lambda>s. is_mounted (self s)"] io_then_def io_bind_def [of ?u] io_bind_def [of ?d])
qed

lemma exit_unmounted:
  assumes nm: "\<not> is_mounted (self s)"
    and bd: "borg_dir (self s) = Some bd"
    and td: "temp_dir (self s) = Some td"
    and t: "borg_dir_is_temp (self s) = Some t"
  shows "trace (snd (BorgArchive_exit E s)) =
           trace s @ (if sqfs_is_mounted (self s) then [[''umount'', bd]] else [])
                   @ (if t then [[''borg'', ''info'', ''--error'', ''--json'', bd],
                                 [''borg'', ''delete'', ''--error'', ''--force'', bd]] else [])
       \<and> (fst (BorgArchive_exit E s) = Inr () \<and> \<not> exists (fs (snd (BorgArchive_exit E s))) td
          \<or> fst (BorgArchive_exit E s) = Inl OSError \<and> is_file (fs (snd (BorgArchive_exit E s))) td)"
proof -
  let ?s1 = "if sqfs_is_mounted (self s) then
               s\<lparr>fs := snd (spawn E [''umount'', bd] (cwd s) (environ s) (fs s)),
                 trace := trace s @ [[''umount'', bd]]\<rparr>
             else s"
  let ?s2 = "if t then snd (delete_borg_repo E ?s1) else ?s1"
  have ex: "BorgArchive_exit E s = remove_temp_dir None ?s2"
    by (rule exit_unfold [OF nm bd t])
  have s1: "self ?s1 = self s"
    "trace ?s1 = trace s @ (if sqfs_is_mounted (self s) then [[''umount'', bd]] else [])"
    by simp_all
  from bd s1 have "borg_dir (self ?s1) = Some bd" by simp
  note d = delete_borg_repo_state [OF this, of E]
  from bd s1 have a: "(case None of None \<Rightarrow> borg_dir (self ?s1) | Some p \<Rightarrow> Some p) = Some bd"
    by simp
  have c: "self (snd (cleanup_borg_files E None ?s1)) = self ?s1"
    using cleanup_borg_files_frame [OF a, of E] by simp
  have s2: "self ?s2 = self s"
    "trace ?s2 = trace ?s1 @ (if t then [[''borg'', ''info'', ''--error'', ''--json'', bd],
                                 [''borg'', ''delete'', ''--error'', ''--force'', bd]] else [])"
    using d c s1 by (cases t; simp)+
  from td s2 have "temp_dir (self ?s2) = Some td" by simp
  from remove_temp_dir_outcome [OF this] s1 s2 show ?thesis
    unfolding ex by simp
qed

lemma exit_temporary:
  assumes nm: "\<not> is_mounted (self s)"
    and bd: "borg_dir (self s) = Some bd"
    and td: "temp_dir (self s) = Some td"
    and t: "borg_dir_is_temp (self s) = Some True"
    and f0: "f0 = (if sqfs_is_mounted (self s) then snd (spawn E [''umount'', bd] (cwd s) (environ s) (fs s))
                   else fs s)"
    and info: "spawn E [''borg'', ''info'', ''--error'', ''--json'', bd] (cwd s) (borg_environ (environ s)) f0
                 = (Exited 0 out err, f1)"
    and js: "json_loads E out = Some (JObj kvs)"
    and c1: "map_of kvs ''cache'' = Some (JObj ckvs)"
    and c2: "map_of ckvs ''path'' = Some (JStr cp)"
    and c3: "map_of kvs ''security_dir'' = Some (JStr sd)"
    and d1: "is_dir f1 cp"
    and d2: "is_dir (remove_tree cp f1) sd"
    and f3: "f3 = snd (spawn E [''borg'', ''delete'', ''--error'', ''--force'', bd] (cwd s)
                        (borg_environ (borg_environ (environ s))) (remove_tree sd (remove_tree cp f1)))"
    and d3: "is_dir f3 td"
  shows "fst (BorgArchive_exit E s) = Inr () \<and> fs (snd (BorgArchive_exit E s)) = remove_tree td f3"
proof -
  let ?s1 = "if sqfs_is_mounted (self s) then
               s\<lparr>fs := snd (spawn E [''umount'', bd] (cwd s) (environ s) (fs s)),
                 trace := trace s @ [[''umount'', bd]]\<rparr>
             else s"
  let ?s2 = "snd (delete_borg_repo E ?s1)"
  have ex: "BorgArchive_exit E s = remove_temp_dir None ?s2"
    using exit_unfold [OF nm bd t, of E] by simp
  have s1: "self ?s1 = self s" "fs ?s1 = f0" "cwd ?s1 = cwd s" "environ ?s1 = environ s"
    using f0 by simp_all
  from bd s1 have bd1: "borg_dir (self ?s1) = Some bd" by simp
  then have a: "(case None of None \<Rightarrow> borg_dir (self ?s1) | Some p \<Rightarrow> Some p) = Some bd" by simp
  from info s1 have info1: "spawn E [''borg'', ''info'', ''--error'', ''--json'', bd] (cwd ?s1)
      (borg_environ (environ ?s1)) (fs ?s1) = (Exited 0 out err, f1)" by simp
  have pf: "fs (snd (cleanup_borg_files E None ?s1)) = remove_tree sd (remove_tree cp f1)"
    by (rule cleanup_borg_files_purges [OF a info1 js c1 c2 c3 d1 d2])
  have cs: "self (snd (cleanup_borg_files E None ?s1)) = self ?s1"
    using cleanup_borg_files_frame [OF a, of E] by simp
  from delete_borg_repo_state [OF bd1, of E] pf cs s1 f3
  have s2: "self ?s2 = self s" "fs ?s2 = f3" by simp_all
  from td s2 have t2: "temp_dir (self ?s2) = Some td" by simp
  from d3 s2 have d: "is_dir (fs ?s2) td" by simp
  from remove_temp_dir_tree [OF t2 d] s2 show ?thesis
    unfolding ex by simp
qed

lemma exit_persistent:
  assumes nm: "\<not> is_mounted (self s)"
    and bd: "borg_dir (self s) = Some bd"
    and td: "temp_dir (self s) = Some td"
    and t: "borg_dir_is_temp (self s) = Some False"
    and f0: "f0 = (if sqfs_is_mounted (self s) then snd (spawn E [''umount'', bd] (cwd s) (environ s) (fs s))
                   else fs s)"
    and d0: "is_dir f0 td"
  shows "fst (BorgArchive_exit E s) = Inr () \<and> fs (snd (BorgArchive_exit E s)) = remove_tree td f0"
proof -
  let ?s1 = "if sqfs_is_mounted (self s) then
               s\<lparr>fs := snd (spawn E [''umount'', bd] (cwd s) (environ s) (fs s)),
                 trace := trace s @ [[''umount'', bd]]\<rparr>
             else s"
  have ex: "BorgArchive_exit E s = remove_temp_dir None ?s1"
    using exit_unfold [OF nm bd t, of E] by simp
  have s1: "self ?s1 = self s" "fs ?s1 = f0" using f0 by simp_all
  from td s1 have t1: "temp_dir (self ?s1) = Some td" by simp
  from d0 s1 have d: "is_dir (fs ?s1) td" by simp
  from remove_temp_dir_tree [OF t1 d] s1 show ?thesis
    unfolding ex by simp
qed

lemma purged_trees_gone:
  "is_under cp q \<or> is_under sd q \<Longrightarrow> \<not> exists (remove_tree sd (remove_tree cp f)) q"
  by (auto simp add: exists_def remove_tree_under remove_tree_keeps_gone)

lemma scratch_tree_gone:
  "is_under td q \<or> is_under td bd \<and> is_under bd q \<Longrightarrow> \<not> exists (remove_tree td f) q"
  by (auto simp add: exists_def remove_tree_under dest: is_under_trans)

text \<open>
  C4. A \<open>mount\<close> that returns has marked the handle mounted, and \<open>__exit__\<close> on a
  mounted handle does nothing at all: no command is started and the file system is
  untouched, so the temporary repository and the scratch directory stay. On a handle that
  is not mounted, \<open>__exit__\<close> starts exactly these commands: \<open>umount\<close> of the repository
  directory when a squashfs mount is recorded, then \<open>borg info\<close> and \<open>borg delete\<close> of the
  repository when it is temporary; and then it removes the scratch directory, which no
  longer exists afterwards (the one failure, an \<open>OSError\<close>, is a scratch path that has
  become a regular file).

  The file system it leaves is this. For a temporary repository whose \<open>borg info\<close> exits
  with status 0 and reports the cache path \<open>cp\<close> and the security directory \<open>sd\<close>, both
  directories: \<open>borg delete\<close> is started on the file system \<open>borg info\<close> left with the
  trees \<open>cp\<close> and \<open>sd\<close> removed, in which nothing at or under either path exists; and
  when the scratch path is a directory on the file system \<open>f3\<close> that \<open>borg delete\<close> leaves,
  the result is \<open>f3\<close> without the tree of the scratch directory: nothing at or under the
  scratch directory exists, nor under the repository when it lies in the scratch
  directory. For a persistent repository the result is the file system after the optional
  \<open>umount\<close>, without the tree of the scratch directory.
\<close>

theorem exit_teardown:
  "(mount E mount_dir tag s0 = (Inr (), s) \<longrightarrow> is_mounted (self s))
   \<and> (is_mounted (self s) \<longrightarrow> BorgArchive_exit E s = (Inr (), s))
   \<and> (\<not> is_mounted (self s) \<and> borg_dir (self s) = Some bd \<and> temp_dir (self s) = Some td
        \<and> borg_dir_is_temp (self s) = Some t \<longrightarrow>
        trace (snd (BorgArchive_exit E s)) =
           trace s @ (if sqfs_is_mounted (self s) then [[''umount'', bd]] else [])
                   @ (if t then [[''borg'', ''info'', ''--error'', ''--json'', bd],
                                 [''borg'', ''delete'', ''--error'', ''--force'', bd]] else [])
        \<and> (fst (BorgArchive_exit E s) = Inr () \<and> \<not> exists (fs (snd (BorgArchive_exit E s))) td
           \<or> fst (BorgArchive_exit E s) = Inl OSError \<and> is_file (fs (snd (BorgArchive_exit E s))) td))
   \<and> (\<not> is_mounted (self s) \<and> borg_dir (self s) = Some bd \<and> temp_dir (self s) = Some td
        \<and> borg_dir_is_temp (self s) = Some True
        \<and> f0 = (if sqfs_is_mounted (self s) then snd (spawn E [''umount'', bd] (cwd s) (environ s) (fs s))
                 else fs s)
        \<and> spawn E [''borg'', ''info'', ''--error'', ''--json'', bd] (cwd s) (borg_environ (environ s)) f0
             = (Exited 0 out err, f1)
        \<and> json_loads E out = Some (JObj kvs)
        \<and> map_of kvs ''cache'' = Some (JObj ckvs) \<and> map_of ckvs ''path'' = Some (JStr cp)
        \<and> map_of kvs ''security_dir'' = Some (JStr sd)
        \<and> is_dir f1 cp \<and> is_dir (remove_tree cp f1) sd
        \<and> f3 = snd (spawn E [''borg'', ''delete'', ''--error'', ''--force'', bd] (cwd s)
                      (borg_environ (borg_environ (environ s))) (remove_tree sd (remove_tree cp f1)))
        \<and> is_dir f3 td \<longrightarrow>
        fst (BorgArchive_exit E s) = Inr ()
        \<and> fs (snd (BorgArchive_exit E s)) = remove_tree td f3
        \<and> (\<forall>q. is_under cp q \<or> is_under sd q \<longrightarrow> \<not> exists (remove_tree sd (remove_tree cp f1)) q)
        \<and> (\<forall>q. is_under td q \<or> is_under td bd \<and> is_under bd q \<longrightarrow>
                 \<not> exists (fs (snd (BorgArchive_exit E s))) q))
   \<and> (\<not> is_mounted (self s) \<and> borg_dir (self s) = Some bd \<and> temp_dir (self s) = Some td
        \<and> borg_dir_is_temp (self s) = Some False
        \<and> f0 = (if sqfs_is_mounted (self s) then snd (spawn E [''umount'', bd] (cwd s) (environ s) (fs s))
                 else fs s)
        \<and> is_dir f0 td \<longrightarrow>
        fst (BorgArchive_exit E s) = Inr ()
        \<and> fs (snd (BorgArchive_exit E s)) = remove_tree td f0
        \<and> (\<forall>q. is_under td q \<longrightarrow> \<not> exists (fs (snd (BorgArchive_exit E s))) q))"
proof (intro conjI impI allI)
  assume "mount E mount_dir tag s0 = (Inr (), s)"
  then show "is_mounted (self s)" by (rule mount_marks_mounted)
next
  assume "is_mounted (self s)"
  then show "BorgArchive_exit E s = (Inr (), s)" by (rule exit_mounted)
next
  assume a: "\<not> is_mounted (self s) \<and> borg_dir (self s) = Some bd \<and> temp_dir (self s) = Some td
        \<and> borg_dir_is_temp (self s) = Some t"
  then have nm: "\<not> is_mounted (self s)" and bd: "borg_dir (self s) = Some bd"
    and td: "temp_dir (self s) = Some td" and t: "borg_dir_is_temp (self s) = Some t"
    by simp_all
  from exit_unmounted [OF nm bd td t, of E]
  show "trace (snd (BorgArchive_exit E s)) =
           trace s @ (if sqfs_is_mounted (self s) then [[''umount'', bd]] else [])
                   @ (if t then [[''borg'', ''info'', ''--error'', ''--json'', bd],
                                 [''borg'', ''delete'', ''--error'', ''--force'', bd]] else [])"
    by (rule conjunct1)
  from exit_unmounted [OF nm bd td t, of E]
  show "fst (BorgArchive_exit E s) = Inr () \<and> \<not> exists (fs (snd (BorgArchive_exit E s))) td
           \<or> fst (BorgArchive_exit E s) = Inl OSError \<and> is_file (fs (snd (BorgArchive_exit E s))) td"
    by (rule conjunct2)
next
  assume a: "\<not> is_mounted (self s) \<and> borg_dir (self s) = Some bd \<and> temp_dir (self s) = Some td
        \<and> borg_dir_is_temp (self s) = Some True
        \<and> f0 = (if sqfs_is_mounted (self s) then snd (spawn E [''umount'', bd] (cwd s) (environ s) (fs s))
                 else fs s)
        \<and> spawn E [''borg'', ''info'', ''--error'', ''--json'', bd] (cwd s) (borg_environ (environ s)) f0
             = (Exited 0 out err, f1)
        \<and> json_loads E out = Some (JObj kvs)
        \<and> map_of kvs ''cache'' = Some (JObj ckvs) \<and> map_of ckvs ''path'' = Some (JStr cp)
        \<and> map_of kvs ''security_dir'' = Some (JStr sd)
        \<and> is_dir f1 cp \<and> is_dir (remove_tree cp f1) sd
        \<and> f3 = snd (spawn E [''borg'', ''delete'', ''--error'', ''--force'', bd] (cwd s)
                      (borg_environ (borg_environ (environ s))) (remove_tree sd (remove_tree cp f1)))
        \<and> is_dir f3 td"
  then have r: "fst (BorgArchive_exit E s) = Inr () \<and> fs (snd (BorgArchive_exit E s)) = remove_tree td f3"
    by (elim conjE)
       (rule exit_temporary [where ?f0.0 = f0 and ?f1.0 = f1 and out = out and err = err and kvs = kvs
          and ckvs = ckvs and cp = cp and sd = sd and bd = bd]; assumption)
  from r show "fst (BorgArchive_exit E s) = Inr ()" by (rule conjunct1)
  from r show "fs (snd (BorgArchive_exit E s)) = remove_tree td f3" by (rule conjunct2)
  {
    fix q assume "is_under cp q \<or> is_under sd q"
    then show "\<not> exists (remove_tree sd (remove_tree cp f1)) q" by (rule purged_trees_gone)
  }
  {
    fix q assume "is_under td q \<or> is_under td bd \<and> is_under bd q"
    then show "\<not> exists (fs (snd (BorgArchive_exit E s))) q"
      using r by (simp add: scratch_tree_gone)
  }
next
  assume a: "\<not> is_mounted (self s) \<and> borg_dir (self s) = Some bd \<and> temp_dir (self s) = Some td
        \<and> borg_dir_is_temp (self s) = Some False
        \<and> f0 = (if sqfs_is_mounted (self s) then snd (spawn E [''umount'', bd] (cwd s) (environ s) (fs s))
                 else fs s)
        \<and> is_dir f0 td"
  then have r: "fst (BorgArchive_exit E s) = Inr () \<and> fs (snd (BorgArchive_exit E s)) = remove_tree td f0"
    by (elim conjE) (rule exit_persistent [where bd = bd and ?f0.0 = f0]; assumption)
  from r show "fst (BorgArchive_exit E s) = Inr ()" by (rule conjunct1)
  from r show "fs (snd (BorgArchive_exit E s)) = remove_tree td f0" by (rule conjunct2)
  {
    fix q assume "is_under td q"
    then show "\<not> exists (fs (snd (BorgArchive_exit E s))) q"
      using r by (simp add: exists_def remove_tree_under)
  }
qed


theorem exit_teardown_witness:
  "mount host ''/mnt/x'' (Some ''1'') entered_state = (Inr (), mounted_state)
   \<and> is_mounted (self mounted_state)
   \<and> BorgArchive_exit host mounted_state = (Inr (), mounted_state)
   \<and> \<not> is_mounted (self squashfs_state)
   \<and> trace (snd (BorgArchive_exit host squashfs_state)) =
        [[''umount'', ''/tmp/tmp0/borg-repo''],
         [''borg'', ''info'', ''--error'', ''--json'', ''/tmp/tmp0/borg-repo''],
         [''borg'', ''delete'', ''--error'', ''--force'', ''/tmp/tmp0/borg-repo'']]
   \<and> fst (BorgArchive_exit host squashfs_state) = Inr ()
   \<and> \<not> exists (fs (snd (BorgArchive_exit host squashfs_state))) ''/tmp/tmp0''
   \<and> exists (fs purge_state) ''/home/.cache/borg/r1/chunks''
   \<and> exists (fs purge_state) ''/home/.config/borg/security/r1/nonce''
   \<and> exists (fs purge_state) ''/tmp/tmp0/borg-repo/data''
   \<and> fst (BorgArchive_exit purging_host purge_state) = Inr ()
   \<and> fs (snd (BorgArchive_exit purging_host purge_state)) =
        [(''/home'', Dir), (''/home/a.baz'', File ''(zstd-compressed tar)''), (''/tmp'', Dir), (''/mnt'', Dir)]
   \<and> \<not> exists (fs (snd (BorgArchive_exit purging_host purge_state))) ''/tmp/tmp0/borg-repo/data''
   \<and> fst (BorgArchive_exit host repo_entered) = Inr ()
   \<and> \<not> exists (fs (snd (BorgArchive_exit host repo_entered))) ''/tmp/tmp0''"
proof -
  have "fst (mount host ''/mnt/x'' (Some ''1'') entered_state) = Inr ()" by code_simp
  then have m: "mount host ''/mnt/x'' (Some ''1'') entered_state = (Inr (), mounted_state)"
    unfolding mounted_state_def by (simp add: prod_eq_iff)
  from m exit_teardown [where E = host and mount_dir = "''/mnt/x''" and tag = "Some ''1''"
      and ?s0.0 = entered_state and s = mounted_state]
  have a: "is_mounted (self mounted_state)" by blast
  from a exit_teardown [where E = host and s = mounted_state]
  have b: "BorgArchive_exit host mounted_state = (Inr (), mounted_state)" by blast
  have h: "\<not> is_mounted (self squashfs_state)"
    "borg_dir (self squashfs_state) = Some ''/tmp/tmp0/borg-repo''"
    "temp_dir (self squashfs_state) = Some ''/tmp/tmp0''"
    "borg_dir_is_temp (self squashfs_state) = Some True"
    "sqfs_is_mounted (self squashfs_state)"
    "trace squashfs_state = []"
    by code_simp+
  from h exit_teardown [where E = host and s = squashfs_state and bd = "''/tmp/tmp0/borg-repo''"
      and td = "''/tmp/tmp0''" and t = True]
  have c: "trace (snd (BorgArchive_exit host squashfs_state)) =
        [[''umount'', ''/tmp/tmp0/borg-repo''],
         [''borg'', ''info'', ''--error'', ''--json'', ''/tmp/tmp0/borg-repo''],
         [''borg'', ''delete'', ''--error'', ''--force'', ''/tmp/tmp0/borg-repo'']]"
    by simp
  have d: "fst (BorgArchive_exit host squashfs_state) = Inr ()"
    "\<not> exists (fs (snd (BorgArchive_exit host squashfs_state))) ''/tmp/tmp0''"
    by code_simp+
  let ?bd = "''/tmp/tmp0/borg-repo''"
  let ?td = "''/tmp/tmp0''"
  let ?f0 = "if sqfs_is_mounted (self purge_state)
             then snd (spawn purging_host [''umount'', ?bd] (cwd purge_state) (environ purge_state) (fs purge_state))
             else fs purge_state"
  let ?f1 = "fs purge_state"
  let ?cp = "''/home/.cache/borg/r1''"
  let ?sd = "''/home/.config/borg/security/r1''"
  let ?f3 = "snd (spawn purging_host [''borg'', ''delete'', ''--error'', ''--force'', ?bd] (cwd purge_state)
                   (borg_environ (borg_environ (environ purge_state))) (remove_tree ?sd (remove_tree ?cp ?f1)))"
  have p: "\<not> is_mounted (self purge_state)"
    "borg_dir (self purge_state) = Some ?bd"
    "temp_dir (self purge_state) = Some ?td"
    "borg_dir_is_temp (self purge_state) = Some True"
    "spawn purging_host [''borg'', ''info'', ''--error'', ''--json'', ?bd] (cwd purge_state)
       (borg_environ (environ purge_state)) ?f0 = (Exited 0 ''(output of borg info)'' [], ?f1)"
    "json_loads purging_host ''(output of borg info)'' =
       Some (JObj [(''cache'', JObj [(''path'', JStr ?cp)]), (''security_dir'', JStr ?sd)])"
    "map_of [(''cache'', JObj [(''path'', JStr ?cp)]), (''security_dir'', JStr ?sd)] ''cache'' =
       Some (JObj [(''path'', JStr ?cp)])"
    "map_of [(''path'', JStr ?cp)] ''path'' = Some (JStr ?cp)"
    "map_of [(''cache'', JObj [(''path'', JStr ?cp)]), (''security_dir'', JStr ?sd)] ''security_dir'' =
       Some (JStr ?sd)"
    "is_dir ?f1 ?cp"
    "is_dir (remove_tree ?cp ?f1) ?sd"
    "is_dir ?f3 ?td"
    by code_simp+
  have u: "is_under ?td ?bd" "is_under ?bd ''/tmp/tmp0/borg-repo/data''" by code_simp+
  from p exit_teardown [where E = purging_host and s = purge_state and bd = ?bd and td = ?td
      and ?f0.0 = ?f0 and ?f1.0 = ?f1 and out = "''(output of borg info)''" and err = "[]"
      and kvs = "[(''cache'', JObj [(''path'', JStr ?cp)]), (''security_dir'', JStr ?sd)]"
      and ckvs = "[(''path'', JStr ?cp)]" and cp = ?cp and sd = ?sd and ?f3.0 = ?f3]
  have e: "fst (BorgArchive_exit purging_host purge_state) = Inr ()
        \<and> (\<forall>q. is_under ?td q \<or> is_under ?td ?bd \<and> is_under ?bd q \<longrightarrow>
                 \<not> exists (fs (snd (BorgArchive_exit purging_host purge_state))) q)"
    by blast
  with u have e2: "\<not> exists (fs (snd (BorgArchive_exit purging_host purge_state))) ''/tmp/tmp0/borg-repo/data''"
    by blast
  have g: "exists (fs purge_state) ''/home/.cache/borg/r1/chunks''"
    "exists (fs purge_state) ''/home/.config/borg/security/r1/nonce''"
    "exists (fs purge_state) ''/tmp/tmp0/borg-repo/data''"
    "fs (snd (BorgArchive_exit purging_host purge_state)) =
        [(''/home'', Dir), (''/home/a.baz'', File ''(zstd-compressed tar)''), (''/tmp'', Dir), (''/mnt'', Dir)]"
    by code_simp+
  have r: "\<not> is_mounted (self repo_entered)"
    "borg_dir (self repo_entered) = Some ''/repo''"
    "temp_dir (self repo_entered) = Some ''/tmp/tmp0''"
    "borg_dir_is_temp (self repo_entered) = Some False"
    "is_dir (if sqfs_is_mounted (self repo_entered)
             then snd (spawn host [''umount'', ''/repo''] (cwd repo_entered) (environ repo_entered) (fs repo_entered))
             else fs repo_entered) ''/tmp/tmp0''"
    "is_under ''/tmp/tmp0'' ''/tmp/tmp0''"
    by code_simp+
  from r exit_teardown [where E = host and s = repo_entered and bd = "''/repo''" and td = "''/tmp/tmp0''"
      and ?f0.0 = "if sqfs_is_mounted (self repo_entered)
             then snd (spawn host [''umount'', ''/repo''] (cwd repo_entered) (environ repo_entered) (fs repo_entered))
             else fs repo_entered"]
  have k: "fst (BorgArchive_exit host repo_entered) = Inr ()
         \<and> \<not> exists (fs (snd (BorgArchive_exit host repo_entered))) ''/tmp/tmp0''"
    by blast
  from m a b h(1) c d e e2 g k show ?thesis by blast
qed


text \<open>
  C5, evaluated on \<open>host\<close>. An archive is mounted at \<open>/mnt/x\<close> by one process (scratch
  directory \<open>/tmp/tmp0\<close>, repository \<open>/tmp/tmp0/borg-repo\<close>) and unmounted by a second.
  Every step returns; afterwards the repository directory and the sidecar file are gone
  and the archive file is as it was, but the scratch directory \<open>/tmp/tmp0\<close> made for the
  mount is still there.
\<close>

theorem unmount_leaves_scratch_dir:
  "temp_dir (self entered_state) = Some ''/tmp/tmp0''
   \<and> borg_dir (self entered_state) = Some ''/tmp/tmp0/borg-repo''
   \<and> fst (mount host ''/mnt/x'' (Some ''1'') entered_state) = Inr ()
   \<and> map_of (fs mounted_state) ''/mnt/x/.borg-repo'' = Some (File ''/tmp/tmp0/borg-repo'')
   \<and> fst (BorgArchive_exit host mounted_state) = Inr ()
   \<and> fst (unmount host ''/mnt/x'' unmount_entered) = Inr ()
   \<and> fst (BorgArchive_exit host (snd (unmount host ''/mnt/x'' unmount_entered))) = Inr ()
   \<and> \<not> exists (fs unmounted_state) ''/mnt/x/.borg-repo''
   \<and> \<not> exists (fs unmounted_state) ''/tmp/tmp0/borg-repo''
   \<and> map_of (fs unmounted_state) ''/home/a.baz'' = map_of archive_fs ''/home/a.baz''
   \<and> is_dir (fs unmounted_state) ''/tmp/tmp0''"
  by code_simp

text \<open>
  C2, evaluated on \<open>host\<close>. The repository \<open>/repo\<close> holds the tags 1, 3 and 4, and
  \<open>/home/data\<close> is a directory that is no repository. \<open>update\<close> with the tag 3 takes no
  snapshot and leaves the tags as they were, but what it raises is an \<open>UpdateError\<close>
  that wraps the \<open>DuplicateTagException\<close>.
\<close>

theorem update_duplicate_tag_is_wrapped:
  "fst (dir_is_repo host ''/home/data'' repo_entered) = Inr False
   \<and> fst (get_tag_list host False repo_entered) = Inr [''1'', ''3'', ''4'']
   \<and> fst (update host ''/home/data'' (Some ''3'') repo_entered) =
        Inl (UpdateError (Fmt ''Failed to update archive: ''
               (DuplicateTagException (Text (''Tag '' @ quoted ''3'' @ '' already exists.'')))))
   \<and> fst (get_tag_list host False (snd (update host ''/home/data'' (Some ''3'') repo_entered))) =
        Inr [''1'', ''3'', ''4'']
   \<and> trace (snd (update host ''/home/data'' (Some ''3'') repo_entered)) =
        trace repo_entered @
          [[''borg'', ''init'', ''/home/data'', ''--encryption'', ''none''],
           [''borg'', ''list'', ''--error'', ''--format'', ''{archive}{NL}'', ''/repo'']]"
  by code_simp

end
